theory Spec2Isabelle
  imports Complex_Main
begin

section \<open>Virtual gamepad of TouchControls.js\<close>

text \<open>
  The embedding follows \<^verbatim>\<open>src/TouchControls/TouchControls.js\<close>. JavaScript numbers
  are modelled as real numbers: products, sums and comparisons are the exact ones; signed
  zeros and NaN are not modelled. The rounding of IEEE doubles is modelled where a statement
  is an exact equality between computed sizes (the layout in double precision below), and
  nowhere else. Module-level variables
  and the parts of the document that the handlers read or write are fields of explicit
  state records; a thrown exception is a value of type \<open>error\<close>.
\<close>

subsection \<open>Key mappings and synthetic key events\<close>

record key_mapping =
  key :: string
  keyCode :: nat
  code :: string

definition KEY_MAPPINGS :: "(string \<times> key_mapping) list" where
  "KEY_MAPPINGS =
    [(''touch-z'', \<lparr>key = ''z'', keyCode = 90, code = ''KeyZ''\<rparr>),
     (''touch-x'', \<lparr>key = ''x'', keyCode = 88, code = ''KeyX''\<rparr>),
     (''touch-c'', \<lparr>key = ''c'', keyCode = 67, code = ''KeyC''\<rparr>),
     (''touch-v'', \<lparr>key = ''v'', keyCode = 86, code = ''KeyV''\<rparr>),
     (''touch-m'', \<lparr>key = ''m'', keyCode = 77, code = ''KeyM''\<rparr>),
     (''touch-q'', \<lparr>key = ''q'', keyCode = 81, code = ''KeyQ''\<rparr>),
     (''touch-esc'', \<lparr>key = ''Escape'', keyCode = 27, code = ''Escape''\<rparr>),
     (''touch-up'', \<lparr>key = ''ArrowUp'', keyCode = 38, code = ''ArrowUp''\<rparr>),
     (''touch-down'', \<lparr>key = ''ArrowDown'', keyCode = 40, code = ''ArrowDown''\<rparr>),
     (''touch-left'', \<lparr>key = ''ArrowLeft'', keyCode = 37, code = ''ArrowLeft''\<rparr>),
     (''touch-right'', \<lparr>key = ''ArrowRight'', keyCode = 39, code = ''ArrowRight''\<rparr>)]"

text \<open>\<^verbatim>\<open>KEY_MAPPINGS[id]\<close>: \<open>None\<close> is JavaScript's \<^verbatim>\<open>undefined\<close>.\<close>

definition keyMapping :: "string \<Rightarrow> key_mapping option" where
  "keyMapping i = map_of KEY_MAPPINGS i"

datatype event_type = Keydown | Keyup

type_synonym key_event = "event_type \<times> key_mapping"

text \<open>
  \<^verbatim>\<open>simulateKeyEvent(type, mapping)\<close> returns at once when the mapping is undefined;
  otherwise it dispatches one keyboard event to the canvas (or the document). The
  dispatched events are recorded, in order, in a list.
\<close>

fun simulateKeyEvent :: "event_type \<Rightarrow> key_mapping option \<Rightarrow> key_event list \<Rightarrow> key_event list" where
  "simulateKeyEvent ty None out = out"
| "simulateKeyEvent ty (Some m) out = out @ [(ty, m)]"

subsection \<open>Joystick\<close>

datatype direction = Left | Right | Up | Down

text \<open>
  The string that \<^verbatim>\<open>'touch-' + direction\<close> appends: the direction's name, and
  \<^verbatim>\<open>null\<close> for no direction.
\<close>

fun directionString :: "direction option \<Rightarrow> string" where
  "directionString None = ''null''"
| "directionString (Some Left) = ''left''"
| "directionString (Some Right) = ''right''"
| "directionString (Some Up) = ''up''"
| "directionString (Some Down) = ''down''"

definition directionMapping :: "direction option \<Rightarrow> key_mapping option" where
  "directionMapping d = keyMapping (''touch-'' @ directionString d)"

record rect =
  rleft :: real
  rtop :: real
  rwidth :: real
  rheight :: real

record touch =
  touchId :: int
  clientX :: real
  clientY :: real

record input_state =
  currentJoystickDirection :: "direction option"
  activeJoystickTouchId :: "int option"
  thumbTransform :: "real \<times> real"
  activeButtons :: "string list"
  dispatched :: "key_event list"

definition joystickDeadzone :: real where
  "joystickDeadzone = 0.20"

text \<open>\<^verbatim>\<open>Math.atan2(y, x)\<close> on real numbers, with range \<open>-pi..pi\<close>.\<close>

definition atan2 :: "real \<Rightarrow> real \<Rightarrow> real" where
  "atan2 y x =
    (if 0 < x then arctan (y / x)
     else if x < 0 then (if 0 \<le> y then arctan (y / x) + pi else arctan (y / x) - pi)
     else if 0 < y then pi / 2
     else if y < 0 then - (pi / 2)
     else 0)"

text \<open>
  Lines 303 to 310 of \<^verbatim>\<open>handleJoystickMove\<close>: the deadzone test and the ladder on
  the angle. The first argument is \<^verbatim>\<open>rect.width / 2\<close>.
\<close>

definition resolveDirection :: "real \<Rightarrow> real \<Rightarrow> real \<Rightarrow> direction option" where
  "resolveDirection halfWidth distance angle =
    (if distance > halfWidth * joystickDeadzone then
       (let absAngle = \<bar>angle\<bar> in
        if absAngle > 2.356 then Some Left
        else if absAngle < 0.785 then Some Right
        else if angle < - 0.785 then Some Up
        else if angle > 0.785 then Some Down
        else None)
     else None)"

definition contactAngle :: "rect \<Rightarrow> real \<Rightarrow> real \<Rightarrow> real" where
  "contactAngle r x y =
    (let centerX = rleft r + rwidth r / 2;
         centerY = rtop r + rheight r / 2;
         deltaX = x - centerX;
         deltaY = y - centerY
     in atan2 deltaY deltaX)"

definition contactDistance :: "rect \<Rightarrow> real \<Rightarrow> real \<Rightarrow> real" where
  "contactDistance r x y =
    (let centerX = rleft r + rwidth r / 2;
         centerY = rtop r + rheight r / 2;
         deltaX = x - centerX;
         deltaY = y - centerY
     in min (rwidth r / 2) (sqrt (deltaX * deltaX + deltaY * deltaY)))"

text \<open>
  \<^verbatim>\<open>handleJoystickMove(x, y)\<close>; the first argument is what
  \<^verbatim>\<open>joystickBase.getBoundingClientRect()\<close> returns.
\<close>

definition handleJoystickMove :: "rect \<Rightarrow> real \<Rightarrow> real \<Rightarrow> input_state \<Rightarrow> input_state" where
  "handleJoystickMove r x y st =
    (let angle = contactAngle r x y;
         distance = contactDistance r x y;
         direction = resolveDirection (rwidth r / 2) distance angle;
         st1 = (if direction \<noteq> currentJoystickDirection st then
                  st\<lparr>dispatched :=
                        simulateKeyEvent Keydown (directionMapping direction)
                          (simulateKeyEvent Keyup (directionMapping (currentJoystickDirection st))
                            (dispatched st)),
                      currentJoystickDirection := direction\<rparr>
                else st)
     in st1\<lparr>thumbTransform := (distance * cos angle, distance * sin angle)\<rparr>)"

datatype error = TypeError | StorageError

text \<open>
  The \<^verbatim>\<open>touchstart\<close> listener of the joystick base. It reads
  \<^verbatim>\<open>e.changedTouches[0]\<close>; on an empty list that read is \<^verbatim>\<open>undefined\<close> and the
  property access throws.
\<close>

fun joystickTouchStart :: "rect \<Rightarrow> touch list \<Rightarrow> input_state \<Rightarrow> error + input_state" where
  "joystickTouchStart r [] st = Inl TypeError"
| "joystickTouchStart r (t # ts) st =
     Inr (handleJoystickMove r (clientX t) (clientY t)
            (st\<lparr>activeJoystickTouchId := Some (touchId t)\<rparr>))"

text \<open>The \<^verbatim>\<open>touchmove\<close> listener: the loop stops at the first tracked touch.\<close>

fun joystickTouchMove :: "rect \<Rightarrow> touch list \<Rightarrow> input_state \<Rightarrow> input_state" where
  "joystickTouchMove r [] st = st"
| "joystickTouchMove r (t # ts) st =
     (if Some (touchId t) = activeJoystickTouchId st
      then handleJoystickMove r (clientX t) (clientY t) st
      else joystickTouchMove r ts st)"

text \<open>The \<^verbatim>\<open>touchend\<close> listener of the joystick base.\<close>

fun joystickTouchEnd :: "touch list \<Rightarrow> input_state \<Rightarrow> input_state" where
  "joystickTouchEnd [] st = st"
| "joystickTouchEnd (t # ts) st =
     (if Some (touchId t) = activeJoystickTouchId st
      then st\<lparr>dispatched :=
                 simulateKeyEvent Keyup (directionMapping (currentJoystickDirection st))
                   (dispatched st),
               currentJoystickDirection := None,
               thumbTransform := (0, 0),
               activeJoystickTouchId := None\<rparr>
      else joystickTouchEnd ts st)"

subsection \<open>The overlay's element tree and the discrete buttons\<close>

text \<open>
  The tree that \<^verbatim>\<open>buildControls\<close> injects: every element with its id, the classes of
  its markup and its children. The classes \<^verbatim>\<open>active\<close> and \<^verbatim>\<open>hidden\<close>, which the
  handlers add and remove, are kept in the state records instead.
\<close>

datatype element = Element string "string list" "element list"

definition controls :: element where
  "controls =
    Element ''virtual-controls-container'' []
      [Element ''action-cluster'' [''virtual-cluster'']
         [Element ''touch-q'' [''virtual-button'', ''action-button''] [],
          Element ''touch-z'' [''virtual-button'', ''action-button''] [],
          Element ''touch-x'' [''virtual-button'', ''action-button''] [],
          Element ''touch-m'' [''virtual-button'', ''action-button''] [],
          Element ''touch-c'' [''virtual-button'', ''action-button''] [],
          Element ''touch-v'' [''virtual-button'', ''action-button''] []],
       Element ''touch-esc'' [''virtual-button'', ''system-button''] [],
       Element ''dpad-container'' [''virtual-cluster'', ''control-mode'']
         [Element ''touch-up'' [''virtual-button'', ''dpad-button''] [],
          Element ''touch-down'' [''virtual-button'', ''dpad-button''] [],
          Element ''touch-left'' [''virtual-button'', ''dpad-button''] [],
          Element ''touch-right'' [''virtual-button'', ''dpad-button''] []],
       Element ''joystick-container'' [''virtual-cluster'', ''control-mode'']
         [Element ''joystick-base'' [''virtual-button'']
            [Element ''joystick-thumb'' [] []]],
       Element ''control-toggle-button'' [''virtual-button''] []]"

text \<open>
  The chain from the element with the given id up to the root of the given tree, each
  element as its id and classes; empty when the id is not in the tree.
\<close>

fun pathFrom :: "string \<Rightarrow> element \<Rightarrow> (string \<times> string list) list"
  and pathFromList :: "string \<Rightarrow> element list \<Rightarrow> (string \<times> string list) list" where
  "pathFrom i (Element j cs ch) =
     (if i = j then [(j, cs)]
      else (case pathFromList i ch of [] \<Rightarrow> [] | p # ps \<Rightarrow> (p # ps) @ [(j, cs)]))"
| "pathFromList i [] = []"
| "pathFromList i (e # es) =
     (case pathFrom i e of [] \<Rightarrow> pathFromList i es | p # ps \<Rightarrow> p # ps)"

text \<open>\<^verbatim>\<open>target.closest('.' + cls)\<close>: the nearest inclusive ancestor with the class.\<close>

definition closest :: "string \<Rightarrow> string \<Rightarrow> (string \<times> string list) option" where
  "closest cls target = find (\<lambda>(i, cs). cls \<in> set cs) (pathFrom target controls)"

definition classesOf :: "string \<Rightarrow> string list" where
  "classesOf i = (case pathFrom i controls of [] \<Rightarrow> [] | (j, cs) # ps \<Rightarrow> cs)"

text \<open>The test both listeners of the container apply to the button they found.\<close>

definition isDiscreteButton :: "string list \<Rightarrow> bool" where
  "isDiscreteButton cs =
    (''action-button'' \<in> set cs \<or> ''dpad-button'' \<in> set cs \<or> ''system-button'' \<in> set cs)"

text \<open>
  The \<^verbatim>\<open>touchstart\<close> listener of the container; the argument is the id of
  \<^verbatim>\<open>e.target\<close>. \<open>activeButtons\<close> lists the elements that carry the class
  \<^verbatim>\<open>active\<close>.
\<close>

definition containerTouchStart :: "string \<Rightarrow> input_state \<Rightarrow> input_state" where
  "containerTouchStart target st =
    (case closest ''virtual-button'' target of
       None \<Rightarrow> st
     | Some (i, cs) \<Rightarrow>
         if isDiscreteButton cs then
           st\<lparr>activeButtons := List.insert i (activeButtons st),
              dispatched := simulateKeyEvent Keydown (keyMapping i) (dispatched st)\<rparr>
         else st)"

text \<open>
  The \<^verbatim>\<open>touchend\<close> listener of the container: first every element matching
  \<^verbatim>\<open>.virtual-button.active\<close> loses the class \<^verbatim>\<open>active\<close>, then the target is looked
  up as in \<^verbatim>\<open>touchstart\<close>.
\<close>

definition containerTouchEnd :: "string \<Rightarrow> input_state \<Rightarrow> input_state" where
  "containerTouchEnd target st =
    (let st1 = st\<lparr>activeButtons :=
                    filter (\<lambda>b. ''virtual-button'' \<notin> set (classesOf b)) (activeButtons st)\<rparr>
     in case closest ''virtual-button'' target of
          None \<Rightarrow> st1
        | Some (i, cs) \<Rightarrow>
            if isDiscreteButton cs then
              st1\<lparr>dispatched := simulateKeyEvent Keyup (keyMapping i) (dispatched st1)\<rparr>
            else st1)"

text \<open>The state when the listeners are attached.\<close>

definition initialInput :: input_state where
  "initialInput =
    \<lparr>currentJoystickDirection = None, activeJoystickTouchId = None,
     thumbTransform = (0, 0), activeButtons = [], dispatched = []\<rparr>"

subsection \<open>Dispatch of a contact-end in the overlay\<close>

text \<open>
  A \<^verbatim>\<open>touchend\<close> event bubbles from its target to the container, so it runs the
  listener of the joystick base first when the target is the base or lies inside it, and
  then the listener of the container. The arguments are the id of the target and the
  event's changed touches.
\<close>

definition insideJoystickBase :: "string \<Rightarrow> bool" where
  "insideJoystickBase target = (''joystick-base'' \<in> set (map fst (pathFrom target controls)))"

definition insideOverlay :: "string \<Rightarrow> bool" where
  "insideOverlay target =
    (''virtual-controls-container'' \<in> set (map fst (pathFrom target controls)))"

definition overlayTouchEnd :: "string \<Rightarrow> touch list \<Rightarrow> input_state \<Rightarrow> input_state" where
  "overlayTouchEnd target touches st =
    (let st1 = (if insideJoystickBase target then joystickTouchEnd touches st else st)
     in if insideOverlay target then containerTouchEnd target st1 else st1)"

subsection \<open>Preference store and mode controller\<close>

text \<open>
  \<^verbatim>\<open>localStorage\<close>: its items, and whether a read and a write succeed. A read or write
  that the browser refuses throws.
\<close>

record storage =
  items :: "string \<rightharpoonup> string"
  readable :: bool
  writable :: bool

definition getItem :: "storage \<Rightarrow> string \<Rightarrow> error + string option" where
  "getItem s k = (if readable s then Inr (items s k) else Inl StorageError)"

definition setItem :: "storage \<Rightarrow> string \<Rightarrow> string \<Rightarrow> error + storage" where
  "setItem s k v = (if writable s then Inr (s\<lparr>items := (items s)(k \<mapsto> v)\<rparr>) else Inl StorageError)"

record mode_state =
  isJoystickMode :: bool
  dpadHidden :: bool
  joystickHidden :: bool
  toggleText :: string
  localStorage :: storage

definition updateControlVisibility :: "mode_state \<Rightarrow> mode_state" where
  "updateControlVisibility st =
    st\<lparr>dpadHidden := isJoystickMode st,
       joystickHidden := (\<not> isJoystickMode st),
       toggleText := (if isJoystickMode st then ''Use D-Pad'' else ''Use Joystick'')\<rparr>"

text \<open>
  Line 62 followed by \<^verbatim>\<open>init\<close>: the mode is read from the storage, the markup has no
  element hidden, and \<^verbatim>\<open>updateControlVisibility\<close> runs once. The read is not guarded:
  when it throws, the script stops there.
\<close>

definition startup :: "storage \<Rightarrow> error + mode_state" where
  "startup s =
    (case getItem s ''controlMode'' of
       Inl e \<Rightarrow> Inl e
     | Inr v \<Rightarrow>
         Inr (updateControlVisibility
                \<lparr>isJoystickMode = (v = Some ''joystick''), dpadHidden = False,
                 joystickHidden = False, toggleText = [], localStorage = s\<rparr>))"

text \<open>
  The click listener of the toggle button. When \<^verbatim>\<open>setItem\<close> throws, the listener ends
  there: the result is the error together with the state at that point.
\<close>

definition toggleClick :: "mode_state \<Rightarrow> (error \<times> mode_state) + mode_state" where
  "toggleClick st =
    (let st1 = st\<lparr>isJoystickMode := (\<not> isJoystickMode st)\<rparr>
     in case setItem (localStorage st1) ''controlMode''
               (if isJoystickMode st1 then ''joystick'' else ''dpad'') of
          Inl e \<Rightarrow> Inl (e, st1)
        | Inr s \<Rightarrow> Inr (updateControlVisibility (st1\<lparr>localStorage := s\<rparr>)))"

definition visibilityConsistent :: "mode_state \<Rightarrow> bool" where
  "visibilityConsistent st =
    (dpadHidden st = isJoystickMode st \<and> joystickHidden st = (\<not> isJoystickMode st))"

subsection \<open>Layout engine\<close>

record config =
  scale :: real
  paddingPercent :: real
  gapPercent :: real

definition CONFIG :: config where
  "CONFIG = \<lparr>scale = 1.0, paddingPercent = 4, gapPercent = 3\<rparr>"

text \<open>The numbers that \<^verbatim>\<open>calculateAndApplyLayout\<close> computes, under the source's names.\<close>

record geometry =
  padding :: real
  gap :: real
  actionButtonSize :: real
  movementClusterSize :: real
  clusterWidth :: real
  clusterHeight :: real
  escButtonSize :: real
  dpadButtonSize :: real
  joystickBaseSize :: real
  toggleButtonW :: real
  toggleButtonH :: real
  toggleBottom :: real
  toggleLeft :: real

text \<open>
  The arguments are the configuration (the source's constant \<open>CONFIG\<close>),
  \<^verbatim>\<open>window.innerWidth\<close> and \<^verbatim>\<open>window.innerHeight\<close>.
\<close>

definition layoutGeometry :: "config \<Rightarrow> real \<Rightarrow> real \<Rightarrow> geometry" where
  "layoutGeometry cfg screenW screenH =
    (let isLandscape = screenW > screenH;
         shortSide = min screenW screenH;
         sizeMultiplier = (if isLandscape then 1.4 else 1.0);
         scl = scale cfg * sizeMultiplier;
         pad = shortSide * paddingPercent cfg / 100;
         gp = shortSide * gapPercent cfg / 100;
         actionSize = (shortSide * 0.11) * scl;
         movementSize = (shortSide * 0.38) * scl;
         toggleW = (shortSide * 0.22) * scl;
         toggleH = (shortSide * 0.07) * scl
     in \<lparr>padding = pad,
         gap = gp,
         actionButtonSize = actionSize,
         movementClusterSize = movementSize,
         clusterWidth = (actionSize * 3) + (gp * 2),
         clusterHeight = (actionSize * 2) + gp,
         escButtonSize = (shortSide * 0.10) * scl,
         dpadButtonSize = movementSize / 3.2,
         joystickBaseSize = movementSize * 0.8,
         toggleButtonW = toggleW,
         toggleButtonH = toggleH,
         toggleBottom = pad + movementSize + gp,
         toggleLeft = pad + (movementSize / 2) - (toggleW / 2)\<rparr>)"

text \<open>
  Inline styles: a length in pixels (the source's \<^verbatim>\<open>`${n}px`\<close>) or a keyword. A
  document maps the id of each element it has to that element's inline style.
\<close>

datatype css_value = Px real | Keyword string

type_synonym style = "string \<rightharpoonup> css_value"

type_synonym document = "string \<rightharpoonup> style"

text \<open>\<^verbatim>\<open>Object.assign(el.style, styles)\<close>.\<close>

definition assign :: "style \<Rightarrow> (string \<times> css_value) list \<Rightarrow> style" where
  "assign st styles = fold (\<lambda>(k, v) m. m(k \<mapsto> v)) styles st"

text \<open>\<^verbatim>\<open>applyStyle(id, styles)\<close>: an element that is not in the document is skipped.\<close>

definition applyStyle :: "string \<Rightarrow> (string \<times> css_value) list \<Rightarrow> document \<Rightarrow> document" where
  "applyStyle i styles doc =
    (case doc i of None \<Rightarrow> doc | Some st \<Rightarrow> doc(i \<mapsto> assign st styles))"

fun allElements :: "element \<Rightarrow> (string \<times> string list) list" where
  "allElements (Element i cs ch) = (i, cs) # concat (map allElements ch)"

text \<open>The ids that \<^verbatim>\<open>querySelectorAll('.' + cls)\<close> finds, in document order.\<close>

definition idsWithClass :: "string \<Rightarrow> string list" where
  "idsWithClass cls = map fst (filter (\<lambda>(i, cs). cls \<in> set cs) (allElements controls))"

text \<open>
  The style assignments of \<^verbatim>\<open>calculateAndApplyLayout\<close>, in the order of the source.
  The loop over \<^verbatim>\<open>querySelectorAll('.dpad-button')\<close> assigns to each directional
  button that the document has, which is \<^verbatim>\<open>applyStyle\<close> for its id.
\<close>

definition layoutAssignments :: "geometry \<Rightarrow> (string \<times> (string \<times> css_value) list) list" where
  "layoutAssignments g =
    (let actionBtnStyle =
           [(''width'', Px (actionButtonSize g)),
            (''height'', Px (actionButtonSize g)),
            (''position'', Keyword ''absolute''),
            (''fontSize'', Px (actionButtonSize g * 0.45))];
         movementStyle =
           [(''width'', Px (movementClusterSize g)),
            (''height'', Px (movementClusterSize g)),
            (''bottom'', Px (padding g)),
            (''left'', Px (padding g))]
     in [(''action-cluster'',
            [(''bottom'', Px (padding g)), (''right'', Px (padding g)),
             (''width'', Px (clusterWidth g)), (''height'', Px (clusterHeight g))]),
         (''touch-q'', actionBtnStyle @ [(''top'', Px 0), (''left'', Px 0)]),
         (''touch-z'', actionBtnStyle @
            [(''top'', Px 0), (''left'', Px (actionButtonSize g + gap g))]),
         (''touch-x'', actionBtnStyle @ [(''top'', Px 0), (''right'', Px 0)]),
         (''touch-m'', actionBtnStyle @ [(''bottom'', Px 0), (''left'', Px 0)]),
         (''touch-c'', actionBtnStyle @
            [(''bottom'', Px 0), (''left'', Px (actionButtonSize g + gap g))]),
         (''touch-v'', actionBtnStyle @ [(''bottom'', Px 0), (''right'', Px 0)]),
         (''touch-esc'',
            [(''width'', Px (escButtonSize g)), (''height'', Px (escButtonSize g)),
             (''top'', Px (padding g)), (''right'', Px (padding g)),
             (''fontSize'', Px (escButtonSize g * 0.4))]),
         (''dpad-container'', movementStyle),
         (''joystick-container'', movementStyle)]
        @ map (\<lambda>i. (i, [(''width'', Px (dpadButtonSize g)),
                           (''height'', Px (dpadButtonSize g))]))
            (idsWithClass ''dpad-button'')
        @ [(''joystick-base'',
              [(''width'', Px (joystickBaseSize g)), (''height'', Px (joystickBaseSize g))]),
           (''joystick-thumb'',
              [(''width'', Px (joystickBaseSize g / 2)),
               (''height'', Px (joystickBaseSize g / 2))]),
           (''control-toggle-button'',
              [(''width'', Px (toggleButtonW g)), (''height'', Px (toggleButtonH g)),
               (''bottom'', Px (toggleBottom g)), (''left'', Px (toggleLeft g)),
               (''borderRadius'', Px (toggleButtonH g / 4)),
               (''fontSize'', Px (toggleButtonH g * 0.45))])])"

definition calculateAndApplyLayout :: "config \<Rightarrow> real \<Rightarrow> real \<Rightarrow> document \<Rightarrow> document" where
  "calculateAndApplyLayout cfg screenW screenH doc =
    fold (\<lambda>(i, styles). applyStyle i styles)
      (layoutAssignments (layoutGeometry cfg screenW screenH)) doc"

text \<open>The document after \<^verbatim>\<open>buildControls\<close>: every element, with no inline style.\<close>

definition initialDocument :: document where
  "initialDocument = map_of (map (\<lambda>(i, cs). (i, Map.empty)) (allElements controls))"

subsection \<open>Layout in double precision\<close>

text \<open>
  The rounding of IEEE 754 binary64 on real numbers: to the nearest number with a
  significand of 53 bits, ties to the even significand. The exponent range is not bounded
  (no overflow and no subnormal numbers), which the sizes of a viewport never reach.
\<close>

definition roundTiesToEven :: "real \<Rightarrow> int" where
  "roundTiesToEven x =
    (let f = \<lfloor>x\<rfloor>; r = x - of_int f
     in if r < 1 / 2 then f else if 1 / 2 < r then f + 1 else if even f then f else f + 1)"

definition fl64 :: "real \<Rightarrow> real" where
  "fl64 x =
    (if x = 0 then 0
     else (let q = 2 powr of_int (\<lfloor>log 2 \<bar>x\<bar>\<rfloor> - 52)
           in of_int (roundTiesToEven (x / q)) * q))"

text \<open>
  Lines 177 to 247 once more, with the result of every arithmetic operation and every
  decimal literal rounded by \<open>fl\<close>. With the identity for \<open>fl\<close> this is
  \<open>layoutGeometry\<close>; with \<open>fl64\<close> it is what the source computes in doubles.
\<close>

definition layoutGeometryRounded :: "(real \<Rightarrow> real) \<Rightarrow> config \<Rightarrow> real \<Rightarrow> real \<Rightarrow> geometry" where
  "layoutGeometryRounded fl cfg screenW screenH =
    (let isLandscape = screenW > screenH;
         shortSide = min screenW screenH;
         sizeMultiplier = (if isLandscape then fl 1.4 else fl 1.0);
         scl = fl (scale cfg * sizeMultiplier);
         pad = fl (fl (shortSide * paddingPercent cfg) / fl 100);
         gp = fl (fl (shortSide * gapPercent cfg) / fl 100);
         actionSize = fl (fl (shortSide * fl 0.11) * scl);
         movementSize = fl (fl (shortSide * fl 0.38) * scl);
         toggleW = fl (fl (shortSide * fl 0.22) * scl);
         toggleH = fl (fl (shortSide * fl 0.07) * scl)
     in \<lparr>padding = pad,
         gap = gp,
         actionButtonSize = actionSize,
         movementClusterSize = movementSize,
         clusterWidth = fl (fl (actionSize * fl 3) + fl (gp * fl 2)),
         clusterHeight = fl (fl (actionSize * fl 2) + gp),
         escButtonSize = fl (fl (shortSide * fl 0.10) * scl),
         dpadButtonSize = fl (movementSize / fl 3.2),
         joystickBaseSize = fl (movementSize * fl 0.8),
         toggleButtonW = toggleW,
         toggleButtonH = toggleH,
         toggleBottom = fl (fl (pad + movementSize) + gp),
         toggleLeft = fl (fl (pad + fl (movementSize / fl 2)) - fl (toggleW / fl 2))\<rparr>)"

subsection \<open>Bounding boxes\<close>

text \<open>
  Where the style sheet of \<^verbatim>\<open>addBaseStyles\<close> and the inline styles put each element
  when it is shown, in viewport coordinates (origin at the top left). The container is fixed
  at the origin with the size of the viewport.
\<close>

record box =
  boxX :: real
  boxY :: real
  boxW :: real
  boxH :: real

definition viewportBox :: "real \<Rightarrow> real \<Rightarrow> box" where
  "viewportBox screenW screenH = \<lparr>boxX = 0, boxY = 0, boxW = screenW, boxH = screenH\<rparr>"

fun pixels :: "css_value option \<Rightarrow> real option" where
  "pixels (Some (Px n)) = Some n"
| "pixels _ = None"

text \<open>
  An absolutely positioned element in its containing block: \<^verbatim>\<open>left\<close> (or else
  \<^verbatim>\<open>right\<close>) and \<^verbatim>\<open>top\<close> (or else \<^verbatim>\<open>bottom\<close>) with the element's width and height.
\<close>

definition absoluteBox :: "box \<Rightarrow> style \<Rightarrow> box option" where
  "absoluteBox cb st =
    (case (pixels (st ''width''), pixels (st ''height'')) of
       (Some w, Some h) \<Rightarrow>
         (case (case pixels (st ''left'') of
                  Some l \<Rightarrow> Some (boxX cb + l)
                | None \<Rightarrow> map_option (\<lambda>r. boxX cb + boxW cb - r - w) (pixels (st ''right''))) of
            None \<Rightarrow> None
          | Some x \<Rightarrow>
              (case (case pixels (st ''top'') of
                       Some t \<Rightarrow> Some (boxY cb + t)
                     | None \<Rightarrow> map_option (\<lambda>b. boxY cb + boxH cb - b - h) (pixels (st ''bottom''))) of
                 None \<Rightarrow> None
               | Some y \<Rightarrow> Some \<lparr>boxX = x, boxY = y, boxW = w, boxH = h\<rparr>))
     | _ \<Rightarrow> None)"

text \<open>
  A directional button in the three by three grid of \<^verbatim>\<open>#dpad-container\<close> (three equal
  columns and rows): the button sits at the start of its cell.
\<close>

definition gridBox :: "nat \<Rightarrow> nat \<Rightarrow> box \<Rightarrow> style \<Rightarrow> box option" where
  "gridBox col row cb st =
    (case (pixels (st ''width''), pixels (st ''height'')) of
       (Some w, Some h) \<Rightarrow>
         Some \<lparr>boxX = boxX cb + real (col - 1) * (boxW cb / 3),
               boxY = boxY cb + real (row - 1) * (boxH cb / 3), boxW = w, boxH = h\<rparr>
     | _ \<Rightarrow> None)"

text \<open>
  An element centred in its parent: the joystick base in \<^verbatim>\<open>#joystick-container\<close>
  (a flex box that centres on both axes) and the thumb, at rest, in the base.
\<close>

definition centeredBox :: "box \<Rightarrow> style \<Rightarrow> box option" where
  "centeredBox cb st =
    (case (pixels (st ''width''), pixels (st ''height'')) of
       (Some w, Some h) \<Rightarrow>
         Some \<lparr>boxX = boxX cb + (boxW cb - w) / 2, boxY = boxY cb + (boxH cb - h) / 2, boxW = w, boxH = h\<rparr>
     | _ \<Rightarrow> None)"

definition styledBox :: "document \<Rightarrow> string \<Rightarrow> (style \<Rightarrow> box option) \<Rightarrow> box option" where
  "styledBox doc i place = (case doc i of None \<Rightarrow> None | Some st \<Rightarrow> place st)"

definition nestedBox ::
  "document \<Rightarrow> box option \<Rightarrow> string \<Rightarrow> (box \<Rightarrow> style \<Rightarrow> box option) \<Rightarrow> box option" where
  "nestedBox doc parent i place =
    (case parent of None \<Rightarrow> None | Some cb \<Rightarrow> styledBox doc i (place cb))"

definition boundingBox :: "real \<Rightarrow> real \<Rightarrow> document \<Rightarrow> string \<Rightarrow> box option" where
  "boundingBox screenW screenH doc i =
    (let outer = (\<lambda>j. styledBox doc j (absoluteBox (viewportBox screenW screenH)));
         base = nestedBox doc (outer ''joystick-container'') ''joystick-base'' centeredBox
     in if i \<in> set [''action-cluster'', ''touch-esc'', ''dpad-container'',
                     ''joystick-container'', ''control-toggle-button'']
        then outer i
        else if i \<in> set (idsWithClass ''action-button'')
        then nestedBox doc (outer ''action-cluster'') i absoluteBox
        else if i = ''touch-up'' then nestedBox doc (outer ''dpad-container'') i (gridBox 2 1)
        else if i = ''touch-down'' then nestedBox doc (outer ''dpad-container'') i (gridBox 2 3)
        else if i = ''touch-left'' then nestedBox doc (outer ''dpad-container'') i (gridBox 1 2)
        else if i = ''touch-right'' then nestedBox doc (outer ''dpad-container'') i (gridBox 3 2)
        else if i = ''joystick-base'' then base
        else if i = ''joystick-thumb'' then nestedBox doc base i centeredBox
        else None)"

definition withinViewport :: "real \<Rightarrow> real \<Rightarrow> box \<Rightarrow> bool" where
  "withinViewport screenW screenH b =
    (0 \<le> boxW b \<and> 0 \<le> boxH b \<and> 0 \<le> boxX b \<and> 0 \<le> boxY b \<and>
     boxX b + boxW b \<le> screenW \<and> boxY b + boxH b \<le> screenH)"

text \<open>Every element of the overlay below the container.\<close>

definition controlIds :: "string list" where
  "controlIds = tl (map fst (allElements controls))"

subsection \<open>Notions used in the statements\<close>

text \<open>
  The events that \<^verbatim>\<open>simulateKeyEvent(type, KEY_MAPPINGS['touch-' + d])\<close> dispatches: one
  event when the direction has a mapping, none otherwise.
\<close>

definition keyEvents :: "event_type \<Rightarrow> direction option \<Rightarrow> key_event list" where
  "keyEvents ty d = simulateKeyEvent ty (directionMapping d) []"

definition arrow :: "direction \<Rightarrow> key_mapping" where
  "arrow d = (case d of
      Left \<Rightarrow> \<lparr>key = ''ArrowLeft'', keyCode = 37, code = ''ArrowLeft''\<rparr>
    | Right \<Rightarrow> \<lparr>key = ''ArrowRight'', keyCode = 39, code = ''ArrowRight''\<rparr>
    | Up \<Rightarrow> \<lparr>key = ''ArrowUp'', keyCode = 38, code = ''ArrowUp''\<rparr>
    | Down \<Rightarrow> \<lparr>key = ''ArrowDown'', keyCode = 40, code = ''ArrowDown''\<rparr>)"

text \<open>
  A joystick base of 100 by 100 pixels at the origin (centre at 50, 50, radius 50, deadzone
  10), and the contact on its rim at the angle 0.785.
\<close>

definition sampleRect :: rect where
  "sampleRect = \<lparr>rleft = 0, rtop = 0, rwidth = 100, rheight = 100\<rparr>"

definition boundaryX :: real where
  "boundaryX = 50 + 50 * cos 0.785"

definition boundaryY :: real where
  "boundaryY = 50 + 50 * sin 0.785"

text \<open>
  Two contacts on the sample base, both to the right of its centre and above the deadzone,
  and the state while the first of them is held.
\<close>

definition firstTouch :: touch where
  "firstTouch = \<lparr>touchId = 1, clientX = 100, clientY = 50\<rparr>"

definition secondTouch :: touch where
  "secondTouch = \<lparr>touchId = 2, clientX = 90, clientY = 50\<rparr>"

definition heldRight :: input_state where
  "heldRight = \<lparr>currentJoystickDirection = Some Right, activeJoystickTouchId = Some 1,
     thumbTransform = (50, 0), activeButtons = [], dispatched = [(Keydown, arrow Right)]\<rparr>"

text \<open>
  Storages: one that refuses reads and writes, one that refuses writes only, and an empty
  one that works; the state in which the directional pad is the active, visible scheme; the
  string that the click listener stores for a mode.
\<close>

definition blockedStorage :: storage where
  "blockedStorage = \<lparr>items = Map.empty, readable = False, writable = False\<rparr>"

definition readOnlyStorage :: storage where
  "readOnlyStorage = \<lparr>items = Map.empty, readable = True, writable = False\<rparr>"

definition emptyStorage :: storage where
  "emptyStorage = \<lparr>items = Map.empty, readable = True, writable = True\<rparr>"

definition dpadShown :: "storage \<Rightarrow> mode_state" where
  "dpadShown s = \<lparr>isJoystickMode = False, dpadHidden = False, joystickHidden = True,
     toggleText = ''Use Joystick'', localStorage = s\<rparr>"

definition schemeName :: "bool \<Rightarrow> string" where
  "schemeName j = (if j then ''joystick'' else ''dpad'')"

text \<open>
  The state that a refused write leaves behind once the storage accepts writes again: the
  joystick is the mode, the directional pad is still the cluster shown.
\<close>

definition staleJoystick :: mode_state where
  "staleJoystick = \<lparr>isJoystickMode = True, dpadHidden = False, joystickHidden = True,
     toggleText = ''Use Joystick'', localStorage = emptyStorage\<rparr>"

text \<open>A configuration that doubles the master scale and keeps the other two values.\<close>

definition doubleScale :: config where
  "doubleScale = \<lparr>scale = 2.0, paddingPercent = 4, gapPercent = 3\<rparr>"

section \<open>Auxiliary facts\<close>

lemma pi_ge_three: "3 \<le> pi"
proof -
  have "sin (pi / 6) \<le> pi / 6"
    by (rule sin_x_le_x) simp
  then show ?thesis
    by (simp add: sin_30)
qed

lemma directionMapping_simps:
  "directionMapping None = None"
  "directionMapping (Some Left) = Some \<lparr>key = ''ArrowLeft'', keyCode = 37, code = ''ArrowLeft''\<rparr>"
  "directionMapping (Some Right) = Some \<lparr>key = ''ArrowRight'', keyCode = 39, code = ''ArrowRight''\<rparr>"
  "directionMapping (Some Up) = Some \<lparr>key = ''ArrowUp'', keyCode = 38, code = ''ArrowUp''\<rparr>"
  "directionMapping (Some Down) = Some \<lparr>key = ''ArrowDown'', keyCode = 40, code = ''ArrowDown''\<rparr>"
  by (simp_all add: directionMapping_def keyMapping_def KEY_MAPPINGS_def)

lemma directionMapping_arrow: "directionMapping (Some d) = Some (arrow d)"
  by (cases d) (simp_all add: directionMapping_simps arrow_def)

lemma handleJoystickMove_direction:
  "currentJoystickDirection (handleJoystickMove r x y st) =
     resolveDirection (rwidth r / 2) (contactDistance r x y) (contactAngle r x y)"
  by (simp add: handleJoystickMove_def Let_def)

lemma sqrt_2500: "sqrt 2500 = 50"
  by (rule real_sqrt_unique) simp_all

lemma sqrt_1600: "sqrt 1600 = 40"
  by (rule real_sqrt_unique) simp_all

lemma sample_angles:
  "contactAngle sampleRect 100 50 = 0"
  "contactAngle sampleRect 90 50 = 0"
  "contactAngle sampleRect 50 100 = pi / 2"
  "contactAngle sampleRect 50 0 = - (pi / 2)"
  "contactAngle sampleRect 0 50 = pi"
  by (simp_all add: contactAngle_def sampleRect_def atan2_def Let_def)

lemma sample_distances:
  "contactDistance sampleRect 100 50 = 50"
  "contactDistance sampleRect 90 50 = 40"
  "contactDistance sampleRect 50 100 = 50"
  "contactDistance sampleRect 50 0 = 50"
  "contactDistance sampleRect 0 50 = 50"
  by (simp_all add: contactDistance_def sampleRect_def Let_def sqrt_2500 sqrt_1600)

lemma resolveDirection_ladder:
  assumes "distance > halfWidth * joystickDeadzone"
  shows "resolveDirection halfWidth distance a =
    (if \<bar>a\<bar> > 2.356 then Some Left
     else if \<bar>a\<bar> < 0.785 then Some Right
     else if a < - 0.785 then Some Up
     else if a > 0.785 then Some Down
     else None)"
  using assms by (simp add: resolveDirection_def Let_def)

lemma resolveDirection_cardinal:
  assumes "distance > halfWidth * joystickDeadzone"
  shows "resolveDirection halfWidth distance 0 = Some Right"
    and "resolveDirection halfWidth distance (pi / 2) = Some Down"
    and "resolveDirection halfWidth distance (- (pi / 2)) = Some Up"
    and "resolveDirection halfWidth distance pi = Some Left"
    and "resolveDirection halfWidth distance (- pi) = Some Left"
  using assms pi_ge_three pi_less_4
  by (simp_all add: resolveDirection_def Let_def abs_if)

lemma directionMapping_defined: "(directionMapping d = None) = (d = None)"
proof (cases d)
  case None
  then show ?thesis by (simp add: directionMapping_simps)
next
  case (Some e)
  then show ?thesis by (cases e) (simp_all add: directionMapping_simps)
qed

lemma simulateKeyEvent_append:
  "simulateKeyEvent ty m out = out @ simulateKeyEvent ty m []"
  by (cases m) simp_all

lemma handleJoystickMove_dispatched:
  "dispatched (handleJoystickMove r x y st) =
    (let new = resolveDirection (rwidth r / 2) (contactDistance r x y) (contactAngle r x y)
     in if new = currentJoystickDirection st then dispatched st
        else dispatched st @ keyEvents Keyup (currentJoystickDirection st) @ keyEvents Keydown new)"
  unfolding handleJoystickMove_def Let_def keyEvents_def
  using simulateKeyEvent_append [of Keydown _ "simulateKeyEvent Keyup _ (dispatched st)"]
        simulateKeyEvent_append [of Keyup _ "dispatched st"]
  by simp

lemma boundary_sample:
  "contactAngle sampleRect boundaryX boundaryY = 0.785"
  "contactDistance sampleRect boundaryX boundaryY = 50"
proof -
  have lt: "(0.785::real) < pi / 2" "- (pi / 2) < (0.785::real)"
    using pi_ge_three by simp_all
  have c: "0 < cos (0.785::real)"
    by (rule cos_gt_zero_pi) (use lt in simp_all)
  have "arctan (sin 0.785 / cos (0.785::real)) = 0.785"
    using arctan_tan [OF lt(2) lt(1)] by (simp add: tan_def)
  then show "contactAngle sampleRect boundaryX boundaryY = 0.785"
    using c by (simp add: contactAngle_def sampleRect_def boundaryX_def boundaryY_def atan2_def Let_def)
  have "(50 * c) * (50 * c) + (50 * s) * (50 * s) = 2500 * (c * c + s * s)" for c s :: real
    by (simp add: algebra_simps)
  then have "sqrt ((50 * cos (0.785::real)) * (50 * cos 0.785) + (50 * sin (0.785::real)) * (50 * sin 0.785)) = 50"
    by (simp only: sin_cos_squared_add3 mult_1_right sqrt_2500)
  then show "contactDistance sampleRect boundaryX boundaryY = 50"
    by (simp add: contactDistance_def sampleRect_def boundaryX_def boundaryY_def Let_def)
qed

lemma deadzone_boundary_none:
  "resolveDirection halfWidth (halfWidth * joystickDeadzone) angle = None"
  by (simp add: resolveDirection_def)

lemma direction_depends_on_angle_only:
  assumes "d1 > h1 * joystickDeadzone" and "d2 > h2 * joystickDeadzone"
  shows "resolveDirection h1 d1 angle = resolveDirection h2 d2 angle"
  using assms by (simp add: resolveDirection_def)

lemma direction_defined_off_boundary:
  assumes "distance > halfWidth * joystickDeadzone" and "\<bar>angle\<bar> \<noteq> 0.785"
  shows "resolveDirection halfWidth distance angle \<noteq> None"
  using assms by (auto simp add: resolveDirection_def Let_def abs_if split: if_splits)

lemma sample_resolved:
  "resolveDirection (rwidth sampleRect / 2) 50 0 = Some Right"
  "resolveDirection (rwidth sampleRect / 2) 40 0 = Some Right"
  "resolveDirection (rwidth sampleRect / 2) 50 (pi / 2) = Some Down"
  using pi_ge_three pi_less_4
  by (simp_all add: resolveDirection_def joystickDeadzone_def sampleRect_def)

lemma startup_consistent: "startup s = Inr st \<Longrightarrow> visibilityConsistent st"
  by (auto simp: startup_def getItem_def visibilityConsistent_def updateControlVisibility_def
      split: if_splits)

lemma toggleClick_consistent: "toggleClick st = Inr st' \<Longrightarrow> visibilityConsistent st'"
  by (auto simp: toggleClick_def setItem_def visibilityConsistent_def updateControlVisibility_def
      Let_def split: if_splits)

lemma startup_empty: "startup emptyStorage = Inr (dpadShown emptyStorage)"
  by (simp add: startup_def getItem_def emptyStorage_def dpadShown_def updateControlVisibility_def)

subsection \<open>Facts about the layout pass\<close>

lemma assign_append: "assign st (a @ b) = assign (assign st a) b"
  by (simp add: assign_def)

lemma fold_applyStyle:
  "fold (\<lambda>(i, styles). applyStyle i styles) xs doc j =
    (case doc j of
       None \<Rightarrow> None
     | Some st \<Rightarrow> Some (assign st (concat (map snd (filter (\<lambda>p. fst p = j) xs)))))"
proof (induction xs arbitrary: doc)
  case Nil
  then show ?case by (simp add: assign_def split: option.splits)
next
  case (Cons x xs)
  obtain i s where x: "x = (i, s)" by (cases x)
  have "fold (\<lambda>(i, styles). applyStyle i styles) (x # xs) doc j =
      fold (\<lambda>(i, styles). applyStyle i styles) xs (applyStyle i s doc) j"
    by (simp add: x)
  also have "\<dots> =
      (case applyStyle i s doc j of
         None \<Rightarrow> None
       | Some st \<Rightarrow> Some (assign st (concat (map snd (filter (\<lambda>p. fst p = j) xs)))))"
    by (rule Cons.IH)
  also have "\<dots> =
      (case doc j of
         None \<Rightarrow> None
       | Some st \<Rightarrow> Some (assign st (concat (map snd (filter (\<lambda>p. fst p = j) (x # xs))))))"
    by (simp add: x applyStyle_def assign_append split: option.splits)
  finally show ?case .
qed

lemma assign_map_add: "assign st a = st ++ map_of (rev a)"
proof (induction a arbitrary: st)
  case Nil
  then show ?case by (simp add: assign_def)
next
  case (Cons x a)
  obtain k v where x: "x = (k, v)" by (cases x)
  have "assign st (x # a) = assign (st(k \<mapsto> v)) a"
    by (simp add: assign_def x)
  also have "\<dots> = st(k \<mapsto> v) ++ map_of (rev a)"
    by (rule Cons.IH)
  also have "\<dots> = st ++ map_of (rev (x # a))"
    by (simp add: x map_add_def fun_eq_iff split: option.splits)
  finally show ?case .
qed

lemma assign_absorb:
  assumes "fst ` set b \<subseteq> fst ` set a"
  shows "assign (assign st b) a = assign st a"
proof
  fix k
  show "assign (assign st b) a k = assign st a k"
  proof (cases "map_of (rev a) k")
    case None
    then have "k \<notin> fst ` set a"
      by (simp add: map_of_eq_None_iff)
    then have "k \<notin> fst ` set b"
      using assms by blast
    then have "map_of (rev b) k = None"
      by (simp add: map_of_eq_None_iff)
    with None show ?thesis
      by (simp add: assign_map_add map_add_def)
  next
    case (Some v)
    then show ?thesis
      by (simp add: assign_map_add map_add_def)
  qed
qed

lemma keys_of_shape:
  "map fst (concat (map snd (filter (\<lambda>p. fst p = j) xs))) =
   concat (map snd (filter (\<lambda>p. fst p = j) (map (\<lambda>(i, s). (i, map fst s)) xs)))"
  by (induction xs) auto

lemma layoutAssignments_shape:
  "map (\<lambda>(i, s). (i, map fst s)) (layoutAssignments g) =
   map (\<lambda>(i, s). (i, map fst s)) (layoutAssignments g')"
  by (simp add: layoutAssignments_def Let_def)

lemma layout_pointwise:
  "calculateAndApplyLayout cfg w h doc j =
    (case doc j of
       None \<Rightarrow> None
     | Some st \<Rightarrow>
         Some (assign st (concat (map snd (filter (\<lambda>p. fst p = j)
                 (layoutAssignments (layoutGeometry cfg w h)))))))"
  by (simp add: calculateAndApplyLayout_def fold_applyStyle)

lemma controlIds_eq:
  "controlIds =
    [''action-cluster'', ''touch-q'', ''touch-z'', ''touch-x'', ''touch-m'', ''touch-c'',
     ''touch-v'', ''touch-esc'', ''dpad-container'', ''touch-up'', ''touch-down'',
     ''touch-left'', ''touch-right'', ''joystick-container'', ''joystick-base'',
     ''joystick-thumb'', ''control-toggle-button'']"
  by (simp add: controlIds_def controls_def)

lemmas box_defs =
  boundingBox_def styledBox_def nestedBox_def layout_pointwise initialDocument_def
  layoutAssignments_def idsWithClass_def controls_def absoluteBox_def gridBox_def
  centeredBox_def viewportBox_def assign_def Let_def

lemma layout_boxes:
  fixes cfg w h
  defines "g \<equiv> layoutGeometry cfg w h"
    and "D \<equiv> calculateAndApplyLayout cfg w h initialDocument"
  shows "boundingBox w h D ''action-cluster'' =
      Some \<lparr>boxX = w - padding g - clusterWidth g, boxY = h - padding g - clusterHeight g,
            boxW = clusterWidth g, boxH = clusterHeight g\<rparr>"
    and "boundingBox w h D ''touch-esc'' =
      Some \<lparr>boxX = w - padding g - escButtonSize g, boxY = padding g,
            boxW = escButtonSize g, boxH = escButtonSize g\<rparr>"
    and "boundingBox w h D ''dpad-container'' =
      Some \<lparr>boxX = padding g, boxY = h - padding g - movementClusterSize g,
            boxW = movementClusterSize g, boxH = movementClusterSize g\<rparr>"
    and "boundingBox w h D ''joystick-container'' =
      Some \<lparr>boxX = padding g, boxY = h - padding g - movementClusterSize g,
            boxW = movementClusterSize g, boxH = movementClusterSize g\<rparr>"
    and "boundingBox w h D ''control-toggle-button'' =
      Some \<lparr>boxX = toggleLeft g, boxY = h - toggleBottom g - toggleButtonH g,
            boxW = toggleButtonW g, boxH = toggleButtonH g\<rparr>"
  unfolding g_def D_def
  by (simp_all add: box_defs)

lemma action_button_boxes:
  fixes cfg w h
  defines "g \<equiv> layoutGeometry cfg w h"
    and "D \<equiv> calculateAndApplyLayout cfg w h initialDocument"
  defines "cx \<equiv> w - padding g - clusterWidth g"
    and "cy \<equiv> h - padding g - clusterHeight g"
  shows "boundingBox w h D ''touch-q'' =
      Some \<lparr>boxX = cx + 0, boxY = cy + 0, boxW = actionButtonSize g, boxH = actionButtonSize g\<rparr>"
    and "boundingBox w h D ''touch-z'' =
      Some \<lparr>boxX = cx + (actionButtonSize g + gap g), boxY = cy + 0,
            boxW = actionButtonSize g, boxH = actionButtonSize g\<rparr>"
    and "boundingBox w h D ''touch-x'' =
      Some \<lparr>boxX = cx + clusterWidth g - 0 - actionButtonSize g, boxY = cy + 0,
            boxW = actionButtonSize g, boxH = actionButtonSize g\<rparr>"
    and "boundingBox w h D ''touch-m'' =
      Some \<lparr>boxX = cx + 0, boxY = cy + clusterHeight g - 0 - actionButtonSize g,
            boxW = actionButtonSize g, boxH = actionButtonSize g\<rparr>"
    and "boundingBox w h D ''touch-c'' =
      Some \<lparr>boxX = cx + (actionButtonSize g + gap g),
            boxY = cy + clusterHeight g - 0 - actionButtonSize g,
            boxW = actionButtonSize g, boxH = actionButtonSize g\<rparr>"
    and "boundingBox w h D ''touch-v'' =
      Some \<lparr>boxX = cx + clusterWidth g - 0 - actionButtonSize g,
            boxY = cy + clusterHeight g - 0 - actionButtonSize g,
            boxW = actionButtonSize g, boxH = actionButtonSize g\<rparr>"
  unfolding g_def D_def cx_def cy_def
  by (simp_all add: box_defs)

lemma movement_boxes:
  fixes cfg w h
  defines "g \<equiv> layoutGeometry cfg w h"
    and "D \<equiv> calculateAndApplyLayout cfg w h initialDocument"
  defines "mx \<equiv> padding g"
    and "my \<equiv> h - padding g - movementClusterSize g"
    and "m \<equiv> movementClusterSize g"
  shows "boundingBox w h D ''touch-up'' =
      Some \<lparr>boxX = mx + 1 * (m / 3), boxY = my + 0 * (m / 3),
            boxW = dpadButtonSize g, boxH = dpadButtonSize g\<rparr>"
    and "boundingBox w h D ''touch-down'' =
      Some \<lparr>boxX = mx + 1 * (m / 3), boxY = my + 2 * (m / 3),
            boxW = dpadButtonSize g, boxH = dpadButtonSize g\<rparr>"
    and "boundingBox w h D ''touch-left'' =
      Some \<lparr>boxX = mx + 0 * (m / 3), boxY = my + 1 * (m / 3),
            boxW = dpadButtonSize g, boxH = dpadButtonSize g\<rparr>"
    and "boundingBox w h D ''touch-right'' =
      Some \<lparr>boxX = mx + 2 * (m / 3), boxY = my + 1 * (m / 3),
            boxW = dpadButtonSize g, boxH = dpadButtonSize g\<rparr>"
    and "boundingBox w h D ''joystick-base'' =
      Some \<lparr>boxX = mx + (m - joystickBaseSize g) / 2, boxY = my + (m - joystickBaseSize g) / 2,
            boxW = joystickBaseSize g, boxH = joystickBaseSize g\<rparr>"
    and "boundingBox w h D ''joystick-thumb'' =
      Some \<lparr>boxX = mx + (m - joystickBaseSize g) / 2
               + (joystickBaseSize g - joystickBaseSize g / 2) / 2,
            boxY = my + (m - joystickBaseSize g) / 2
               + (joystickBaseSize g - joystickBaseSize g / 2) / 2,
            boxW = joystickBaseSize g / 2, boxH = joystickBaseSize g / 2\<rparr>"
  unfolding g_def D_def mx_def my_def m_def
  by (simp_all add: box_defs)

lemma scaled_le:
  fixes s c b :: real
  assumes "0 \<le> s" and "c \<le> 1" and "s \<le> b"
  shows "s * c \<le> b"
proof -
  have "s * c \<le> s * 1"
    using assms(1,2) by (rule mult_left_mono [rotated])
  then show ?thesis
    using assms(3) by simp
qed

lemma geometry_relations:
  fixes cfg w h
  defines "g \<equiv> layoutGeometry cfg w h"
  shows "clusterWidth g = 3 * actionButtonSize g + 2 * gap g"
    and "clusterHeight g = 2 * actionButtonSize g + gap g"
    and "dpadButtonSize g = movementClusterSize g / 3.2"
    and "joystickBaseSize g = movementClusterSize g * 0.8"
    and "toggleBottom g = padding g + movementClusterSize g + gap g"
    and "toggleLeft g = padding g + movementClusterSize g / 2 - toggleButtonW g / 2"
  unfolding g_def
  by (simp_all add: layoutGeometry_def Let_def)

lemma geometry_bounds:
  fixes cfg w h
  defines "g \<equiv> layoutGeometry cfg w h"
  assumes pos: "0 < w" "0 < h"
    and cfg: "0 \<le> scale cfg" "0 \<le> paddingPercent cfg" "0 \<le> gapPercent cfg"
    and fit1: "paddingPercent cfg / 100 + 0.462 * scale cfg + 2 * gapPercent cfg / 100 \<le> 1"
    and fit2: "paddingPercent cfg / 100 + 0.63 * scale cfg + gapPercent cfg / 100 \<le> 1"
  shows "0 \<le> padding g" and "0 \<le> gap g" and "0 \<le> actionButtonSize g"
    and "0 \<le> movementClusterSize g" and "0 \<le> escButtonSize g"
    and "0 \<le> toggleButtonW g" and "0 \<le> toggleButtonH g"
    and "toggleButtonW g \<le> movementClusterSize g"
    and "padding g + clusterWidth g \<le> w" and "padding g + clusterHeight g \<le> h"
    and "padding g + escButtonSize g \<le> w" and "padding g + escButtonSize g \<le> h"
    and "padding g + movementClusterSize g \<le> w" and "padding g + movementClusterSize g \<le> h"
    and "toggleBottom g + toggleButtonH g \<le> h"
proof -
  define s where "s = min w h"
  define e where "e = scale cfg * (if w > h then 1.4 else 1.0)"
  define p where "p = paddingPercent cfg / 100"
  define q where "q = gapPercent cfg / 100"
  have s: "0 \<le> s" "s \<le> w" "s \<le> h"
    using pos by (simp_all add: s_def)
  have e: "0 \<le> e" "e \<le> 1.4 * scale cfg"
    using cfg(1) by (simp_all add: e_def)
  have pq: "0 \<le> p" "0 \<le> q"
    using cfg(2,3) by (simp_all add: p_def q_def)
  have f1: "p + 0.33 * e + 2 * q \<le> 1"
    using fit1 e(2) by (simp add: p_def q_def)
  have f2: "p + 0.45 * e + q \<le> 1"
    using fit2 e(2) by (simp add: p_def q_def)
  have g: "padding g = s * p" "gap g = s * q" "actionButtonSize g = s * (0.11 * e)"
    "movementClusterSize g = s * (0.38 * e)" "escButtonSize g = s * (0.10 * e)"
    "toggleButtonW g = s * (0.22 * e)" "toggleButtonH g = s * (0.07 * e)"
    "clusterWidth g = s * (0.33 * e + 2 * q)" "clusterHeight g = s * (0.22 * e + q)"
    "toggleBottom g = s * (p + 0.38 * e + q)"
    unfolding g_def
    by (simp_all add: layoutGeometry_def Let_def s_def e_def p_def q_def algebra_simps)
  show "0 \<le> padding g" "0 \<le> gap g" "0 \<le> actionButtonSize g" "0 \<le> movementClusterSize g"
    "0 \<le> escButtonSize g" "0 \<le> toggleButtonW g" "0 \<le> toggleButtonH g"
    using s(1) e(1) pq by (simp_all add: g)
  show "toggleButtonW g \<le> movementClusterSize g"
    unfolding g using s(1) e(1) by (intro mult_left_mono) simp_all
  have sum: "s * a + s * b = s * (a + b)" for a b
    by (simp add: algebra_simps)
  show "padding g + clusterWidth g \<le> w"
    unfolding g sum using s(1) _ s(2) by (rule scaled_le) (use f1 in simp)
  show "padding g + clusterHeight g \<le> h"
    unfolding g sum using s(1) _ s(3) by (rule scaled_le) (use f1 e(1) pq in simp)
  show "padding g + escButtonSize g \<le> w"
    unfolding g sum using s(1) _ s(2) by (rule scaled_le) (use f1 e(1) pq in simp)
  show "padding g + escButtonSize g \<le> h"
    unfolding g sum using s(1) _ s(3) by (rule scaled_le) (use f1 e(1) pq in simp)
  show "padding g + movementClusterSize g \<le> w"
    unfolding g sum using s(1) _ s(2) by (rule scaled_le) (use f2 e(1) pq in simp)
  show "padding g + movementClusterSize g \<le> h"
    unfolding g sum using s(1) _ s(3) by (rule scaled_le) (use f2 e(1) pq in simp)
  show "toggleBottom g + toggleButtonH g \<le> h"
    unfolding g sum using s(1) _ s(3) by (rule scaled_le) (use f2 in simp)
qed

subsection \<open>Facts about the contact-end dispatch\<close>

lemma containerTouchEnd_off_button:
  assumes "\<forall>i cs. closest ''virtual-button'' target = Some (i, cs) \<longrightarrow> \<not> isDiscreteButton cs"
  shows "containerTouchEnd target st =
     st\<lparr>activeButtons := filter (\<lambda>b. ''virtual-button'' \<notin> set (classesOf b)) (activeButtons st)\<rparr>"
  using assms by (auto simp: containerTouchEnd_def Let_def split: option.splits)

lemma joystickTouchEnd_cases:
  "joystickTouchEnd touches st =
    (if activeJoystickTouchId st \<in> set (map (Some \<circ> touchId) touches)
     then st\<lparr>dispatched := dispatched st @ keyEvents Keyup (currentJoystickDirection st),
             currentJoystickDirection := None,
             thumbTransform := (0, 0),
             activeJoystickTouchId := None\<rparr>
     else st)"
proof (induction touches)
  case Nil
  then show ?case by simp
next
  case (Cons t ts)
  show ?case
    using simulateKeyEvent_append [of Keyup "directionMapping (currentJoystickDirection st)" "dispatched st"]
    by (auto simp: Cons.IH keyEvents_def)
qed

lemma joystick_base_not_discrete:
  "closest ''virtual-button'' ''joystick-base'' = Some (''joystick-base'', [''virtual-button''])"
  "closest ''virtual-button'' ''control-toggle-button'' =
     Some (''control-toggle-button'', [''virtual-button''])"
  "\<not> isDiscreteButton [''virtual-button'']"
  "insideOverlay ''joystick-base''" "insideJoystickBase ''joystick-base''"
  "insideOverlay ''control-toggle-button''" "\<not> insideJoystickBase ''control-toggle-button''"
  by (simp_all add: closest_def controls_def isDiscreteButton_def insideOverlay_def
      insideJoystickBase_def)

subsection \<open>Facts about double rounding\<close>

lemma roundTiesToEven_of_int: "roundTiesToEven (of_int n) = n"
  by (simp add: roundTiesToEven_def)

lemma roundTiesToEven_bounds:
  assumes "of_int a \<le> x" and "x \<le> of_int b"
  shows "a \<le> roundTiesToEven x" and "roundTiesToEven x \<le> b"
proof -
  have f: "a \<le> \<lfloor>x\<rfloor>"
    using assms(1) by (simp add: le_floor_iff)
  show "a \<le> roundTiesToEven x"
    using f by (simp add: roundTiesToEven_def Let_def)
  show "roundTiesToEven x \<le> b"
  proof (cases "x = of_int b")
    case True
    then show ?thesis by (simp add: roundTiesToEven_of_int)
  next
    case False
    then have "x < of_int b"
      using assms(2) by simp
    then have "\<lfloor>x\<rfloor> < b"
      by (simp add: floor_less_iff)
    then show ?thesis
      by (simp add: roundTiesToEven_def Let_def)
  qed
qed

lemma fl64_at:
  fixes e :: int
  assumes "x \<noteq> 0" and "2 powr of_int e \<le> \<bar>x\<bar>" and "\<bar>x\<bar> < 2 powr (of_int e + 1)"
  shows "fl64 x = of_int (roundTiesToEven (x / 2 powr of_int (e - 52))) * 2 powr of_int (e - 52)"
proof -
  have "\<lfloor>log 2 \<bar>x\<bar>\<rfloor> = e"
    using assms by (subst floor_log_eq_powr_iff) simp_all
  then show ?thesis
    using assms(1) by (simp add: fl64_def Let_def)
qed

lemma fl64_eval:
  fixes m :: nat
  assumes "2 ^ 52 \<le> \<bar>x\<bar> * 2 ^ m" and "\<bar>x\<bar> * 2 ^ m < 2 ^ 53"
  shows "fl64 x = of_int (roundTiesToEven (x * 2 ^ m)) / 2 ^ m"
proof -
  define e :: int where "e = 52 - int m"
  have q: "(2::real) powr of_int (e - 52) = 1 / 2 ^ m"
    by (simp add: e_def powr_minus powr_realpow field_simps)
  have p: "(2::real) powr of_int e = 2 ^ 52 / 2 ^ m"
    "(2::real) powr (of_int e + 1) = 2 ^ 53 / 2 ^ m"
    by (simp_all add: e_def powr_diff powr_realpow powr_add)
  have x: "x \<noteq> 0"
    using assms(1) by auto
  have "2 powr of_int e \<le> \<bar>x\<bar>" "\<bar>x\<bar> < 2 powr (of_int e + 1)"
    unfolding p using assms by (simp_all add: field_simps)
  then have "fl64 x = of_int (roundTiesToEven (x / 2 powr of_int (e - 52))) * 2 powr of_int (e - 52)"
    using x by (intro fl64_at)
  then show ?thesis
    unfolding q by simp
qed

lemma fl64_one: "fl64 1 = 1"
  by (subst fl64_eval [where m = 52]) (simp_all add: roundTiesToEven_def)

lemma fl64_idem: "fl64 (fl64 x) = fl64 x"
proof (cases "x = 0")
  case True
  then show ?thesis by (simp add: fl64_def)
next
  case False
  define e where "e = \<lfloor>log 2 \<bar>x\<bar>\<rfloor>"
  define q :: real where "q = 2 powr of_int (e - 52)"
  define v where "v = x / q"
  define n where "n = roundTiesToEven v"
  have q0: "0 < q"
    by (simp add: q_def)
  have qe: "q * 2 ^ 52 = 2 powr of_int e" "q * 2 ^ 53 = 2 powr (of_int e + 1)"
    by (simp_all add: q_def powr_diff powr_add)
  have fx: "fl64 x = of_int n * q"
    using False by (simp add: fl64_def Let_def e_def q_def n_def v_def)
  have "\<lfloor>log 2 \<bar>x\<bar>\<rfloor> = e"
    by (simp add: e_def)
  then have b: "2 powr of_int e \<le> \<bar>x\<bar>" "\<bar>x\<bar> < 2 powr (of_int e + 1)"
    using False by (simp_all add: floor_log_eq_powr_iff)
  have b': "q * 2 ^ 52 \<le> \<bar>x\<bar>" "\<bar>x\<bar> < q * 2 ^ 53"
    using b by (simp_all only: qe)
  have y: "2 ^ 52 \<le> \<bar>v\<bar>" "\<bar>v\<bar> < 2 ^ 53"
    unfolding v_def using b' q0 by (simp_all add: field_simps)
  have nb: "2 ^ 52 \<le> \<bar>n\<bar>" "\<bar>n\<bar> \<le> 2 ^ 53"
  proof -
    have "2 ^ 52 \<le> \<bar>n\<bar> \<and> \<bar>n\<bar> \<le> 2 ^ 53"
    proof (cases "0 \<le> v")
      case True
      then have "of_int (2 ^ 52) \<le> v" "v \<le> of_int (2 ^ 53)"
        using y by simp_all
      then have "2 ^ 52 \<le> n" "n \<le> 2 ^ 53"
        unfolding n_def by (rule roundTiesToEven_bounds)+
      then show ?thesis by simp
    next
      case F: False
      then have "of_int (- (2 ^ 53)) \<le> v" "v \<le> of_int (- (2 ^ 52))"
        using y by simp_all
      then have "- (2 ^ 53) \<le> n" "n \<le> - (2 ^ 52)"
        unfolding n_def by (rule roundTiesToEven_bounds)+
      then show ?thesis by simp
    qed
    then show "2 ^ 52 \<le> \<bar>n\<bar>" "\<bar>n\<bar> \<le> 2 ^ 53"
      by simp_all
  qed
  have rn: "2 ^ 52 \<le> \<bar>real_of_int n\<bar>" "\<bar>real_of_int n\<bar> \<le> 2 ^ 53"
  proof -
    have "real_of_int (2 ^ 52) \<le> real_of_int \<bar>n\<bar>"
      using nb(1) by (simp only: of_int_le_iff)
    then show "2 ^ 52 \<le> \<bar>real_of_int n\<bar>" by simp
    have "real_of_int \<bar>n\<bar> \<le> real_of_int (2 ^ 53)"
      using nb(2) by (simp only: of_int_le_iff)
    then show "\<bar>real_of_int n\<bar> \<le> 2 ^ 53" by simp
  qed
  let ?z = "of_int n * q :: real"
  have z0: "?z \<noteq> 0"
    using rn(1) q0 by auto
  have az: "\<bar>?z\<bar> = \<bar>of_int n\<bar> * q"
    using q0 by (simp add: abs_mult)
  show ?thesis
  proof (cases "\<bar>n\<bar> = 2 ^ 53")
    case True
    have an: "\<bar>real_of_int n\<bar> = 2 ^ 53"
    proof -
      have "real_of_int \<bar>n\<bar> = real_of_int (2 ^ 53)"
        using True by simp
      then show ?thesis by simp
    qed
    have z1: "2 powr of_int (e + 1) \<le> \<bar>?z\<bar>" "\<bar>?z\<bar> < 2 powr (of_int (e + 1) + 1)"
      unfolding az an using q0 by (simp_all add: qe [symmetric] powr_add mult.commute)
    have q2: "2 powr of_int (e + 1 - 52) = 2 * q"
      by (simp add: q_def powr_add powr_diff)
    have ev: "even n"
    proof -
      have "n = 2 ^ 53 \<or> n = - (2 ^ 53)"
        using True by auto
      then show ?thesis by auto
    qed
    then obtain k where k: "n = 2 * k"
      by (auto elim: evenE)
    have "fl64 ?z = of_int (roundTiesToEven (?z / (2 * q))) * (2 * q)"
      using fl64_at [OF z0 z1] by (simp only: q2)
    also have "?z / (2 * q) = of_int k"
      using q0 by (simp add: k)
    also have "of_int (roundTiesToEven (of_int k)) * (2 * q) = ?z"
      by (simp add: roundTiesToEven_of_int k)
    finally show ?thesis
      by (simp add: fx)
  next
    case F: False
    then have "\<bar>n\<bar> < 2 ^ 53"
      using nb(2) by simp
    then have "real_of_int \<bar>n\<bar> < real_of_int (2 ^ 53)"
      by (simp only: of_int_less_iff)
    then have lt: "\<bar>real_of_int n\<bar> < 2 ^ 53"
      by simp
    have z1: "2 powr of_int e \<le> \<bar>?z\<bar>" "\<bar>?z\<bar> < 2 powr (of_int e + 1)"
      unfolding az using q0 rn(1) lt by (simp_all add: qe [symmetric] mult.commute)
    have "fl64 ?z = of_int (roundTiesToEven (?z / q)) * q"
      using fl64_at [OF z0 z1] by (simp only: q_def)
    also have "?z / q = of_int n"
      using q0 by simp
    finally show ?thesis
      by (simp add: fx roundTiesToEven_of_int)
  qed
qed

lemma fl64_0_11: "fl64 (11 / 100) = 7926335344172073 / 72057594037927936"
  by (subst fl64_eval [where m = 56]) (simp_all add: roundTiesToEven_def Let_def)

lemma fl64_action_base: "fl64 (1545635392113554235 / 36028797018963968) = 6037638250443571 / 140737488355328"
  by (subst fl64_eval [where m = 47]) (simp_all add: roundTiesToEven_def Let_def)

lemma fl64_1_4: "fl64 (7 / 5) = 3152519739159347 / 2251799813685248"
  by (subst fl64_eval [where m = 52]) (simp_all add: roundTiesToEven_def Let_def)

lemma fl64_action_landscape: "fl64 (19033773762426862625441400708137 / 316912650057057350374175801344) = 8452693550620999 / 140737488355328"
  by (subst fl64_eval [where m = 47]) (simp_all add: roundTiesToEven_def Let_def)

lemma fl64_0_38: "fl64 (19 / 50) = 3422735716801577 / 9007199254740992"
  by (subst fl64_eval [where m = 54]) (simp_all add: roundTiesToEven_def Let_def)

lemma fl64_movement_base: "fl64 (667433464776307515 / 4503599627370496) = 2607161971782451 / 17592186044416"
  by (subst fl64_eval [where m = 45]) (simp_all add: roundTiesToEven_def Let_def)

lemma fl64_movement_landscape: "fl64 (8219129579229781230017907219497 / 39614081257132168796771975168) = 3650026760495431 / 17592186044416"
  by (subst fl64_eval [where m = 45]) (simp_all add: roundTiesToEven_def Let_def)

lemma fl64_3_2: "fl64 (16 / 5) = 3602879701896397 / 1125899906842624"
  by (subst fl64_eval [where m = 51]) (simp_all add: roundTiesToEven_def Let_def)

lemma fl64_dpad_portrait: "fl64 (166858366194076864 / 3602879701896397) = 6517904929456127 / 140737488355328"
  by (subst fl64_eval [where m = 47]) (simp_all add: roundTiesToEven_def Let_def)

lemma fl64_dpad_landscape: "fl64 (233601712671707584 / 3602879701896397) = 570316681327411 / 8796093022208"
  by (subst fl64_eval [where m = 46]) (simp_all add: roundTiesToEven_def Let_def)

lemma fl64_dpad_portrait_times: "fl64 (20547823948074451498784898469069 / 316912650057057350374175801344) = 4562533450619289 / 70368744177664"
  by (subst fl64_eval [where m = 46]) (simp_all add: roundTiesToEven_def Let_def)

lemma fl64_fix_action_base: "fl64 (6037638250443571 / 140737488355328) = 6037638250443571 / 140737488355328"
  by (subst fl64_eval [where m = 47]) (simp_all add: roundTiesToEven_def Let_def)

lemma fl64_fix_1_4: "fl64 (3152519739159347 / 2251799813685248) = 3152519739159347 / 2251799813685248"
  by (subst fl64_eval [where m = 52]) (simp_all add: roundTiesToEven_def Let_def)

lemma fl64_fix_movement_base: "fl64 (2607161971782451 / 17592186044416) = 2607161971782451 / 17592186044416"
  by (subst fl64_eval [where m = 45]) (simp_all add: roundTiesToEven_def Let_def)

lemmas fl64_values =
  fl64_fix_action_base fl64_fix_1_4 fl64_fix_movement_base
  fl64_0_11 fl64_action_base fl64_1_4 fl64_action_landscape fl64_0_38 fl64_movement_base
  fl64_movement_landscape fl64_3_2 fl64_dpad_portrait fl64_dpad_landscape
  fl64_dpad_portrait_times

lemma layoutGeometryRounded_exact: "layoutGeometryRounded (\<lambda>x. x) = layoutGeometry"
  by (simp add: fun_eq_iff layoutGeometryRounded_def layoutGeometry_def Let_def)

section \<open>Joystick: angle ladder and deadzone\<close>

text \<open>
  Above the deadzone the direction that \<^verbatim>\<open>handleJoystickMove\<close> resolves follows the
  four-way ladder on the contact angle, the first matching branch winning: an absolute
  angle above 2.356 gives left, else an absolute angle below 0.785 gives right, else an
  angle below -0.785 gives up, else an angle above 0.785 gives down. In particular the
  angle 0 gives right, \<open>pi / 2\<close> gives down, \<open>- pi / 2\<close> gives up, \<open>pi\<close> and \<open>- pi\<close>
  give left.
\<close>

lemma joystick_ladder:
  assumes "contactDistance r x y > rwidth r / 2 * joystickDeadzone"
  shows "let a = contactAngle r x y;
             d = currentJoystickDirection (handleJoystickMove r x y st)
         in (\<bar>a\<bar> > 2.356 \<longrightarrow> d = Some Left) \<and>
            (\<not> \<bar>a\<bar> > 2.356 \<and> \<bar>a\<bar> < 0.785 \<longrightarrow> d = Some Right) \<and>
            (\<not> \<bar>a\<bar> > 2.356 \<and> \<not> \<bar>a\<bar> < 0.785 \<and> a < - 0.785 \<longrightarrow> d = Some Up) \<and>
            (\<not> \<bar>a\<bar> > 2.356 \<and> \<not> \<bar>a\<bar> < 0.785 \<and> \<not> a < - 0.785 \<and> a > 0.785 \<longrightarrow> d = Some Down) \<and>
            (a = 0 \<longrightarrow> d = Some Right) \<and>
            (a = pi / 2 \<longrightarrow> d = Some Down) \<and>
            (a = - (pi / 2) \<longrightarrow> d = Some Up) \<and>
            (a = pi \<or> a = - pi \<longrightarrow> d = Some Left)"
proof -
  let ?a = "contactAngle r x y"
  let ?d = "currentJoystickDirection (handleJoystickMove r x y st)"
  have d: "?d = resolveDirection (rwidth r / 2) (contactDistance r x y) ?a"
    by (rule handleJoystickMove_direction)
  note lad = resolveDirection_ladder [OF assms, of ?a]
  note car = resolveDirection_cardinal [OF assms]
  have "\<bar>?a\<bar> > 2.356 \<longrightarrow> ?d = Some Left"
    by (simp add: d lad)
  moreover have "\<not> \<bar>?a\<bar> > 2.356 \<and> \<bar>?a\<bar> < 0.785 \<longrightarrow> ?d = Some Right"
    by (simp add: d lad)
  moreover have "\<not> \<bar>?a\<bar> > 2.356 \<and> \<not> \<bar>?a\<bar> < 0.785 \<and> ?a < - 0.785 \<longrightarrow> ?d = Some Up"
    by (simp add: d lad)
  moreover have "\<not> \<bar>?a\<bar> > 2.356 \<and> \<not> \<bar>?a\<bar> < 0.785 \<and> \<not> ?a < - 0.785 \<and> ?a > 0.785
      \<longrightarrow> ?d = Some Down"
    by (simp add: d lad)
  moreover have "?a = 0 \<longrightarrow> ?d = Some Right"
  proof
    assume e: "?a = 0"
    show "?d = Some Right" unfolding d e by (rule car(1))
  qed
  moreover have "?a = pi / 2 \<longrightarrow> ?d = Some Down"
  proof
    assume e: "?a = pi / 2"
    show "?d = Some Down" unfolding d e by (rule car(2))
  qed
  moreover have "?a = - (pi / 2) \<longrightarrow> ?d = Some Up"
  proof
    assume e: "?a = - (pi / 2)"
    show "?d = Some Up" unfolding d e by (rule car(3))
  qed
  moreover have "?a = pi \<or> ?a = - pi \<longrightarrow> ?d = Some Left"
  proof
    assume "?a = pi \<or> ?a = - pi"
    then show "?d = Some Left"
    proof
      assume e: "?a = pi"
      show ?thesis unfolding d e by (rule car(4))
    next
      assume e: "?a = - pi"
      show ?thesis unfolding d e by (rule car(5))
    qed
  qed
  ultimately show ?thesis
    unfolding Let_def by blast
qed

lemma joystick_ladder_samples:
  "contactDistance sampleRect 100 50 > rwidth sampleRect / 2 * joystickDeadzone \<and>
   currentJoystickDirection (handleJoystickMove sampleRect 100 50 initialInput) = Some Right \<and>
   currentJoystickDirection (handleJoystickMove sampleRect 50 100 initialInput) = Some Down \<and>
   currentJoystickDirection (handleJoystickMove sampleRect 50 0 initialInput) = Some Up \<and>
   currentJoystickDirection (handleJoystickMove sampleRect 0 50 initialInput) = Some Left"
proof -
  have h: "contactDistance sampleRect 100 50 > rwidth sampleRect / 2 * joystickDeadzone"
    "contactDistance sampleRect 50 100 > rwidth sampleRect / 2 * joystickDeadzone"
    "contactDistance sampleRect 50 0 > rwidth sampleRect / 2 * joystickDeadzone"
    "contactDistance sampleRect 0 50 > rwidth sampleRect / 2 * joystickDeadzone"
    by (simp_all only: sample_distances) (simp_all add: sampleRect_def joystickDeadzone_def)
  show ?thesis
    using h(1)
      joystick_ladder [OF h(1), of initialInput]
      joystick_ladder [OF h(2), of initialInput]
      joystick_ladder [OF h(3), of initialInput]
      joystick_ladder [OF h(4), of initialInput]
    by (simp add: sample_angles Let_def)
qed

text \<open>
  C1. The ladder and the cardinal angles are as the claim has them (\<open>joystick_ladder\<close>).
  The claim also gives the direction down to the angle 0.785 itself; the comparisons of the
  ladder are all strict, so at 0.785 above the deadzone no branch matches and the source
  resolves no direction where the claim has down.
\<close>

theorem boundary_angle_counterexample:
  "(50::real) > 50 * joystickDeadzone \<and>
   resolveDirection 50 50 0.785 = None \<and>
   resolveDirection 50 50 0.785 \<noteq> Some Down"
  by (simp add: resolveDirection_def joystickDeadzone_def)

text \<open>
  C2. At a clamped magnitude of exactly the radius times 0.20 the direction is none
  (\<open>deadzone_boundary_none\<close>) and above it the direction depends on the angle alone
  (\<open>direction_depends_on_angle_only\<close>); it is a direction for every angle except 0.785 and
  -0.785 (\<open>direction_defined_off_boundary\<close>). At the angle 0.785, on the rim of the sample
  base and so above the deadzone, the handler resolves no direction and dispatches no event.
\<close>

theorem boundary_angle_resolves_no_direction:
  "contactDistance sampleRect boundaryX boundaryY > rwidth sampleRect / 2 * joystickDeadzone \<and>
   contactAngle sampleRect boundaryX boundaryY = 0.785 \<and>
   currentJoystickDirection (handleJoystickMove sampleRect boundaryX boundaryY initialInput) = None \<and>
   dispatched (handleJoystickMove sampleRect boundaryX boundaryY initialInput) = []"
proof -
  have r: "resolveDirection (rwidth sampleRect / 2) 50 0.785 = None"
    by (simp add: resolveDirection_def joystickDeadzone_def sampleRect_def)
  have "contactDistance sampleRect boundaryX boundaryY > rwidth sampleRect / 2 * joystickDeadzone"
    by (simp only: boundary_sample) (simp add: sampleRect_def joystickDeadzone_def)
  moreover have "currentJoystickDirection (handleJoystickMove sampleRect boundaryX boundaryY initialInput) = None"
    by (simp only: handleJoystickMove_direction boundary_sample r)
  moreover have "dispatched (handleJoystickMove sampleRect boundaryX boundaryY initialInput) = []"
    by (simp only: handleJoystickMove_dispatched boundary_sample r Let_def) (simp add: initialInput_def)
  ultimately show ?thesis
    by (simp only: boundary_sample)
qed

section \<open>Joystick: direction changes\<close>

text \<open>
  C3. For two consecutive move samples, the first resolving the direction \<open>previous\<close>
  and the second the direction \<open>new\<close>: the tracked direction after each sample is the
  direction that sample resolved; when \<open>new\<close> equals \<open>previous\<close> the second sample
  dispatches nothing; when they differ it dispatches the key-up of \<open>previous\<close> and then the
  key-down of \<open>new\<close>, each exactly one event with the direction's mapped key, or no event
  when that direction is none.
\<close>

theorem direction_change_law:
  "let st1 = handleJoystickMove r x1 y1 st;
       st2 = handleJoystickMove r x2 y2 st1;
       previous = resolveDirection (rwidth r / 2) (contactDistance r x1 y1) (contactAngle r x1 y1);
       new = resolveDirection (rwidth r / 2) (contactDistance r x2 y2) (contactAngle r x2 y2)
   in currentJoystickDirection st1 = previous \<and>
      currentJoystickDirection st2 = new \<and>
      (new = previous \<longrightarrow> dispatched st2 = dispatched st1) \<and>
      (new \<noteq> previous \<longrightarrow>
         dispatched st2 = dispatched st1 @ keyEvents Keyup previous @ keyEvents Keydown new) \<and>
      length (keyEvents Keyup previous) = (if previous = None then 0 else 1) \<and>
      length (keyEvents Keydown new) = (if new = None then 0 else 1) \<and>
      (\<forall>e \<in> set (keyEvents Keyup previous). fst e = Keyup \<and> directionMapping previous = Some (snd e)) \<and>
      (\<forall>e \<in> set (keyEvents Keydown new). fst e = Keydown \<and> directionMapping new = Some (snd e))"
proof -
  have len: "length (keyEvents ty d) = (if d = None then 0 else 1)" for ty d
    using directionMapping_defined [of d]
    by (cases "directionMapping d") (auto simp: keyEvents_def)
  have ev: "\<forall>e \<in> set (keyEvents ty d). fst e = ty \<and> directionMapping d = Some (snd e)" for ty d
    by (cases "directionMapping d") (auto simp: keyEvents_def)
  let ?st1 = "handleJoystickMove r x1 y1 st"
  let ?st2 = "handleJoystickMove r x2 y2 ?st1"
  let ?previous = "resolveDirection (rwidth r / 2) (contactDistance r x1 y1) (contactAngle r x1 y1)"
  let ?new = "resolveDirection (rwidth r / 2) (contactDistance r x2 y2) (contactAngle r x2 y2)"
  have a: "currentJoystickDirection ?st1 = ?previous"
    by (rule handleJoystickMove_direction)
  have b: "currentJoystickDirection ?st2 = ?new"
    by (rule handleJoystickMove_direction)
  have c: "?new = ?previous \<longrightarrow> dispatched ?st2 = dispatched ?st1"
    by (simp add: handleJoystickMove_dispatched [of r x2 y2] a Let_def)
  have d: "?new \<noteq> ?previous \<longrightarrow>
      dispatched ?st2 = dispatched ?st1 @ keyEvents Keyup ?previous @ keyEvents Keydown ?new"
    by (simp add: handleJoystickMove_dispatched [of r x2 y2] a Let_def)
  show ?thesis
    unfolding Let_def by (intro conjI a b c d len ev)
qed

theorem direction_change_law_witness:
  "dispatched (handleJoystickMove sampleRect 50 100 (handleJoystickMove sampleRect 100 50 initialInput))
     = [(Keydown, arrow Right), (Keyup, arrow Right), (Keydown, arrow Down)] \<and>
   dispatched (handleJoystickMove sampleRect 90 50 (handleJoystickMove sampleRect 100 50 initialInput))
     = [(Keydown, arrow Right)]"
proof -
  have first: "dispatched (handleJoystickMove sampleRect 100 50 initialInput) = [(Keydown, arrow Right)]"
    by (simp only: handleJoystickMove_dispatched sample_angles sample_distances sample_resolved Let_def)
       (simp add: initialInput_def keyEvents_def directionMapping_simps arrow_def)
  show ?thesis
    using direction_change_law [of sampleRect 100 50 initialInput 50 100]
          direction_change_law [of sampleRect 100 50 initialInput 90 50]
    by (simp only: Let_def sample_angles sample_distances sample_resolved first)
       (simp add: keyEvents_def directionMapping_simps arrow_def)
qed

section \<open>Joystick: contact start\<close>

text \<open>
  C10, amended. On every contact-start on the joystick base the listener records the
  contact and runs \<^verbatim>\<open>handleJoystickMove\<close> at once with the initial contact point, so
  the tracked direction becomes the one that point resolves to. If it resolves to a
  direction (the point lies outside the deadzone and a branch of the angle ladder matches)
  that differs from the direction tracked so far, the key-down of that direction is
  dispatched at contact-start, after the key-up of the direction tracked so far if there is
  one. If it resolves to what is tracked already, nothing is dispatched.
\<close>

theorem touchstart_resolves_at_once:
  "let st' = handleJoystickMove r (clientX t) (clientY t)
               (st\<lparr>activeJoystickTouchId := Some (touchId t)\<rparr>);
       new = resolveDirection (rwidth r / 2) (contactDistance r (clientX t) (clientY t))
               (contactAngle r (clientX t) (clientY t))
   in joystickTouchStart r (t # ts) st = Inr st' \<and>
      activeJoystickTouchId st' = Some (touchId t) \<and>
      currentJoystickDirection st' = new \<and>
      (\<forall>d. new = Some d \<and> currentJoystickDirection st \<noteq> Some d \<longrightarrow>
         dispatched st' =
           dispatched st @ keyEvents Keyup (currentJoystickDirection st) @ [(Keydown, arrow d)]) \<and>
      (new = currentJoystickDirection st \<longrightarrow> dispatched st' = dispatched st)"
proof -
  let ?st0 = "st\<lparr>activeJoystickTouchId := Some (touchId t)\<rparr>"
  let ?st' = "handleJoystickMove r (clientX t) (clientY t) ?st0"
  let ?new = "resolveDirection (rwidth r / 2) (contactDistance r (clientX t) (clientY t))
               (contactAngle r (clientX t) (clientY t))"
  have a: "joystickTouchStart r (t # ts) st = Inr ?st'"
    by simp
  have b: "activeJoystickTouchId ?st' = Some (touchId t)"
    by (simp add: handleJoystickMove_def Let_def)
  have c: "currentJoystickDirection ?st' = ?new"
    by (rule handleJoystickMove_direction)
  have d: "\<forall>d. ?new = Some d \<and> currentJoystickDirection st \<noteq> Some d \<longrightarrow>
         dispatched ?st' =
           dispatched st @ keyEvents Keyup (currentJoystickDirection st) @ [(Keydown, arrow d)]"
    by (auto simp: handleJoystickMove_dispatched Let_def keyEvents_def directionMapping_arrow)
  have e: "?new = currentJoystickDirection st \<longrightarrow> dispatched ?st' = dispatched st"
    by (simp add: handleJoystickMove_dispatched Let_def)
  show ?thesis
    unfolding Let_def by (intro conjI a b c d e)
qed

theorem touchstart_resolves_at_once_witness:
  "resolveDirection (rwidth sampleRect / 2)
      (contactDistance sampleRect (clientX firstTouch) (clientY firstTouch))
      (contactAngle sampleRect (clientX firstTouch) (clientY firstTouch)) = Some Right \<and>
   currentJoystickDirection initialInput \<noteq> Some Right \<and>
   joystickTouchStart sampleRect [firstTouch] initialInput =
     Inr (handleJoystickMove sampleRect (clientX firstTouch) (clientY firstTouch)
            (initialInput\<lparr>activeJoystickTouchId := Some (touchId firstTouch)\<rparr>)) \<and>
   dispatched (handleJoystickMove sampleRect (clientX firstTouch) (clientY firstTouch)
            (initialInput\<lparr>activeJoystickTouchId := Some (touchId firstTouch)\<rparr>))
     = [(Keydown, arrow Right)]"
proof -
  have xy: "clientX firstTouch = 100" "clientY firstTouch = 50"
    by (simp_all add: firstTouch_def)
  have h1: "resolveDirection (rwidth sampleRect / 2)
      (contactDistance sampleRect (clientX firstTouch) (clientY firstTouch))
      (contactAngle sampleRect (clientX firstTouch) (clientY firstTouch)) = Some Right"
    by (simp only: xy sample_angles sample_distances sample_resolved)
  have h2: "currentJoystickDirection initialInput \<noteq> Some Right"
    by (simp add: initialInput_def)
  have k: "keyEvents Keyup (currentJoystickDirection initialInput) = []"
    "dispatched initialInput = []"
    by (simp_all add: initialInput_def keyEvents_def directionMapping_simps)
  show ?thesis
    using h1 h2 touchstart_resolves_at_once [of sampleRect firstTouch initialInput "[]"]
    unfolding Let_def h1 k by simp
qed

text \<open>
  As first stated the claim promises a key-down for every initial contact outside the
  deadzone. A second contact that starts on the base while the first is held, and resolves
  to the direction already tracked, dispatches nothing.
\<close>

theorem touchstart_same_direction_counterexample:
  "joystickTouchStart sampleRect [firstTouch] initialInput = Inr heldRight \<and>
   contactDistance sampleRect (clientX secondTouch) (clientY secondTouch)
     > rwidth sampleRect / 2 * joystickDeadzone \<and>
   joystickTouchStart sampleRect [secondTouch] heldRight =
     Inr (heldRight\<lparr>activeJoystickTouchId := Some 2, thumbTransform := (40, 0)\<rparr>) \<and>
   dispatched (heldRight\<lparr>activeJoystickTouchId := Some 2, thumbTransform := (40, 0)\<rparr>)
     = dispatched heldRight"
proof -
  have a: "joystickTouchStart sampleRect [firstTouch] initialInput = Inr heldRight"
    unfolding joystickTouchStart.simps handleJoystickMove_def Let_def firstTouch_def
    by (simp only: touch.simps sample_angles sample_distances sample_resolved)
       (simp add: initialInput_def heldRight_def directionMapping_simps arrow_def)
  have b: "contactDistance sampleRect (clientX secondTouch) (clientY secondTouch)
     > rwidth sampleRect / 2 * joystickDeadzone"
    unfolding secondTouch_def
    by (simp only: touch.simps sample_distances) (simp add: sampleRect_def joystickDeadzone_def)
  have c: "joystickTouchStart sampleRect [secondTouch] heldRight =
     Inr (heldRight\<lparr>activeJoystickTouchId := Some 2, thumbTransform := (40, 0)\<rparr>)"
    unfolding joystickTouchStart.simps handleJoystickMove_def Let_def secondTouch_def
    by (simp only: touch.simps sample_angles sample_distances sample_resolved)
       (simp add: heldRight_def)
  show ?thesis
    using a b c by simp
qed

section \<open>Discrete buttons: release off the button\<close>

text \<open>
  C9, amended. For every contact-end in the overlay whose target does not resolve to an
  action, system or directional-pad button, no virtual button is active afterwards. The
  listener of the container dispatches nothing; the event dispatches a key event only when
  its target lies in the joystick base and it ends the tracked joystick contact: then the
  base's listener dispatches the key-up of the tracked direction (none when no direction is
  tracked) and resets the tracking. In every other case nothing is dispatched and the
  tracking is untouched, so a contact that starts on a discrete button, dispatching its
  key-down, and ends with such an event leaves the key-down without a key-up.
\<close>

theorem release_off_button:
  assumes "\<forall>i cs. closest ''virtual-button'' target = Some (i, cs) \<longrightarrow> \<not> isDiscreteButton cs"
    and "insideOverlay target"
  shows "let ended = (insideJoystickBase target \<and>
                       activeJoystickTouchId st \<in> set (map (Some \<circ> touchId) touches));
             st' = overlayTouchEnd target touches st
         in (\<forall>b \<in> set (activeButtons st'). ''virtual-button'' \<notin> set (classesOf b)) \<and>
            (ended \<longrightarrow>
               dispatched st' = dispatched st @ keyEvents Keyup (currentJoystickDirection st) \<and>
               currentJoystickDirection st' = None \<and> activeJoystickTouchId st' = None) \<and>
            (\<not> ended \<longrightarrow>
               dispatched st' = dispatched st \<and>
               currentJoystickDirection st' = currentJoystickDirection st \<and>
               activeJoystickTouchId st' = activeJoystickTouchId st) \<and>
            (\<forall>pressed i cs m.
               \<not> ended \<and> closest ''virtual-button'' pressed = Some (i, cs) \<and>
               isDiscreteButton cs \<and> keyMapping i = Some m \<longrightarrow>
               dispatched (overlayTouchEnd target touches (containerTouchStart pressed st)) =
                 dispatched st @ [(Keydown, m)])"
proof -
  have c: "containerTouchEnd target s =
     s\<lparr>activeButtons := filter (\<lambda>b. ''virtual-button'' \<notin> set (classesOf b)) (activeButtons s)\<rparr>"
    for s
    by (rule containerTouchEnd_off_button [OF assms(1)])
  have o: "overlayTouchEnd target touches s =
      containerTouchEnd target (if insideJoystickBase target then joystickTouchEnd touches s else s)"
    for s
    using assms(2) by (simp add: overlayTouchEnd_def Let_def)
  have p: "activeJoystickTouchId (containerTouchStart pressed st) = activeJoystickTouchId st"
    "dispatched (containerTouchStart pressed st) = dispatched st @ [(Keydown, m)]"
    if "closest ''virtual-button'' pressed = Some (i, cs)" "isDiscreteButton cs"
       "keyMapping i = Some m" for pressed i cs m
    using that by (simp_all add: containerTouchStart_def)
  show ?thesis
    unfolding Let_def o c
    by (auto simp: joystickTouchEnd_cases p)
qed

theorem release_off_button_witness:
  "insideOverlay ''control-toggle-button'' \<and>
   closest ''virtual-button'' ''control-toggle-button'' =
     Some (''control-toggle-button'', [''virtual-button'']) \<and>
   \<not> isDiscreteButton [''virtual-button''] \<and>
   containerTouchStart ''touch-z'' initialInput =
     initialInput\<lparr>activeButtons := [''touch-z''],
       dispatched := [(Keydown, \<lparr>key = ''z'', keyCode = 90, code = ''KeyZ''\<rparr>)]\<rparr> \<and>
   dispatched (overlayTouchEnd ''control-toggle-button'' []
                 (containerTouchStart ''touch-z'' initialInput)) =
     [(Keydown, \<lparr>key = ''z'', keyCode = 90, code = ''KeyZ''\<rparr>)] \<and>
   dispatched (overlayTouchEnd ''joystick-base'' [firstTouch] heldRight) =
     [(Keydown, arrow Right), (Keyup, arrow Right)]"
proof -
  note f = joystick_base_not_discrete
  have h1: "\<forall>i cs. closest ''virtual-button'' ''control-toggle-button'' = Some (i, cs)
       \<longrightarrow> \<not> isDiscreteButton cs"
    using f(3) by (simp add: f(2))
  have h2: "\<forall>i cs. closest ''virtual-button'' ''joystick-base'' = Some (i, cs)
       \<longrightarrow> \<not> isDiscreteButton cs"
    using f(3) by (simp add: f(1))
  have s: "containerTouchStart ''touch-z'' initialInput =
     initialInput\<lparr>activeButtons := [''touch-z''],
       dispatched := [(Keydown, \<lparr>key = ''z'', keyCode = 90, code = ''KeyZ''\<rparr>)]\<rparr>"
    by (simp add: containerTouchStart_def closest_def controls_def isDiscreteButton_def
        keyMapping_def KEY_MAPPINGS_def initialInput_def)
  have a: "dispatched (overlayTouchEnd ''control-toggle-button'' []
                 (containerTouchStart ''touch-z'' initialInput)) =
     dispatched (containerTouchStart ''touch-z'' initialInput)"
    using release_off_button [OF h1 f(6), of "containerTouchStart ''touch-z'' initialInput" "[]"]
    by (simp add: Let_def f)
  have b: "dispatched (overlayTouchEnd ''joystick-base'' [firstTouch] heldRight) =
      dispatched heldRight @ keyEvents Keyup (currentJoystickDirection heldRight)"
    using release_off_button [OF h2 f(4), of heldRight "[firstTouch]"]
    by (simp add: Let_def f heldRight_def firstTouch_def)
  show ?thesis
    using f s a b
    by (simp add: heldRight_def keyEvents_def directionMapping_simps arrow_def)
qed

text \<open>
  The claim as first stated has no key-up dispatched by any such contact-end. The release
  of the joystick is one: its target is the joystick base, which is no discrete button, and
  the key-up of the held direction is dispatched.
\<close>

theorem joystick_release_counterexample:
  "insideOverlay ''joystick-base'' \<and>
   closest ''virtual-button'' ''joystick-base'' = Some (''joystick-base'', [''virtual-button'']) \<and>
   \<not> isDiscreteButton [''virtual-button''] \<and>
   overlayTouchEnd ''joystick-base'' [firstTouch] heldRight =
     \<lparr>currentJoystickDirection = None, activeJoystickTouchId = None,
      thumbTransform = (0, 0), activeButtons = [],
      dispatched = [(Keydown, arrow Right), (Keyup, arrow Right)]\<rparr>"
  by (simp add: joystick_base_not_discrete overlayTouchEnd_def containerTouchEnd_def Let_def
      heldRight_def firstTouch_def directionMapping_simps arrow_def)

section \<open>Preference store and mode toggle\<close>

text \<open>
  C4, amended. The storage accesses are not guarded. When the read at load throws, the
  exception propagates and the script stops there (no scheme is chosen, nothing is built);
  when the read succeeds, the scheme is the joystick exactly if the stored value is
  \<^verbatim>\<open>joystick\<close>, and the directional pad otherwise. When the write of a toggle throws, the
  exception propagates out of the click listener: the mode variable is already flipped,
  the visibility, the label and the storage are as before.
\<close>

theorem storage_failure_propagates:
  "(\<not> readable s \<longrightarrow> startup s = Inl StorageError) \<and>
   (readable s \<longrightarrow>
      (\<exists>st. startup s = Inr st \<and>
         isJoystickMode st = (items s ''controlMode'' = Some ''joystick'') \<and>
         localStorage st = s)) \<and>
   (\<not> writable (localStorage st) \<longrightarrow>
      toggleClick st = Inl (StorageError, st\<lparr>isJoystickMode := \<not> isJoystickMode st\<rparr>))"
  by (simp add: startup_def getItem_def toggleClick_def setItem_def updateControlVisibility_def
      Let_def)

theorem storage_failure_propagates_witness:
  "\<not> readable blockedStorage \<and> startup blockedStorage = Inl StorageError \<and>
   readable readOnlyStorage \<and>
   (\<exists>st. startup readOnlyStorage = Inr st \<and> \<not> isJoystickMode st) \<and>
   \<not> writable (localStorage (dpadShown readOnlyStorage)) \<and>
   toggleClick (dpadShown readOnlyStorage) =
     Inl (StorageError, (dpadShown readOnlyStorage)\<lparr>isJoystickMode := True\<rparr>)"
  using storage_failure_propagates [of blockedStorage "dpadShown readOnlyStorage"]
        storage_failure_propagates [of readOnlyStorage "dpadShown readOnlyStorage"]
  by (auto simp: blockedStorage_def readOnlyStorage_def dpadShown_def)

text \<open>
  The claim as first stated has load fall back to the directional pad and no failure reach
  the caller. With a storage that refuses reads, startup ends in the error; with one that
  refuses writes, the toggle ends in the error, the mode flipped and the joystick still
  hidden.
\<close>

theorem storage_unavailable_counterexample:
  "startup blockedStorage = Inl StorageError \<and>
   startup readOnlyStorage = Inr (dpadShown readOnlyStorage) \<and>
   toggleClick (dpadShown readOnlyStorage) =
     Inl (StorageError,
          \<lparr>isJoystickMode = True, dpadHidden = False, joystickHidden = True,
           toggleText = ''Use Joystick'', localStorage = readOnlyStorage\<rparr>)"
  by (simp add: startup_def getItem_def toggleClick_def setItem_def updateControlVisibility_def
      Let_def blockedStorage_def readOnlyStorage_def dpadShown_def)

text \<open>
  C5, amended. From either mode, when the storage accepts the write: after one toggle
  exactly one of the two movement clusters is hidden (hiding is a class on the element,
  which stays in the tree), the shown one is the cluster of the new scheme, and the stored
  preference is the new scheme's name; a second toggle restores the scheme, and it restores
  the visibility of both clusters exactly when the visibility at the start was the one
  \<^verbatim>\<open>updateControlVisibility\<close> sets for the mode.
\<close>

theorem toggle_law:
  assumes "writable (localStorage st)"
  shows "\<exists>st1 st2.
     toggleClick st = Inr st1 \<and>
     isJoystickMode st1 = (\<not> isJoystickMode st) \<and>
     dpadHidden st1 = isJoystickMode st1 \<and>
     joystickHidden st1 = (\<not> isJoystickMode st1) \<and>
     dpadHidden st1 \<noteq> joystickHidden st1 \<and>
     items (localStorage st1) ''controlMode'' = Some (schemeName (isJoystickMode st1)) \<and>
     toggleClick st1 = Inr st2 \<and>
     isJoystickMode st2 = isJoystickMode st \<and>
     items (localStorage st2) ''controlMode'' = Some (schemeName (isJoystickMode st)) \<and>
     ((dpadHidden st2 = dpadHidden st \<and> joystickHidden st2 = joystickHidden st)
        = visibilityConsistent st)"
  using assms
  by (auto simp: toggleClick_def setItem_def updateControlVisibility_def visibilityConsistent_def
      schemeName_def Let_def)

theorem toggle_law_witness:
  "writable (localStorage (dpadShown emptyStorage)) \<and>
   visibilityConsistent (dpadShown emptyStorage) \<and>
   startup emptyStorage = Inr (dpadShown emptyStorage) \<and>
   (\<exists>st1 st2.
      toggleClick (dpadShown emptyStorage) = Inr st1 \<and>
      isJoystickMode st1 \<and> dpadHidden st1 \<and> \<not> joystickHidden st1 \<and>
      items (localStorage st1) ''controlMode'' = Some ''joystick'' \<and>
      toggleClick st1 = Inr st2 \<and>
      \<not> isJoystickMode st2 \<and> \<not> dpadHidden st2 \<and> joystickHidden st2 \<and>
      items (localStorage st2) ''controlMode'' = Some ''dpad'')"
proof -
  have h1: "writable (localStorage (dpadShown emptyStorage))"
    by (simp add: dpadShown_def emptyStorage_def)
  have h2: "visibilityConsistent (dpadShown emptyStorage)"
    by (simp add: dpadShown_def visibilityConsistent_def)
  show ?thesis
    using h1 h2 startup_empty toggle_law [OF h1]
    by (auto simp: dpadShown_def schemeName_def)
qed

text \<open>
  The claim as first stated holds of every starting state. With a storage that refuses the
  write the toggle ends in the error, the mode flipped and nothing stored; and from the
  state this leaves, once writes are accepted again, two toggles end with the joystick
  shown where the directional pad was.
\<close>

theorem toggle_law_counterexample:
  "toggleClick (dpadShown readOnlyStorage) =
     Inl (StorageError, (dpadShown readOnlyStorage)\<lparr>isJoystickMode := True\<rparr>) \<and>
   items (localStorage ((dpadShown readOnlyStorage)\<lparr>isJoystickMode := True\<rparr>)) ''controlMode''
     = None \<and>
   toggleClick staleJoystick =
     Inr \<lparr>isJoystickMode = False, dpadHidden = False, joystickHidden = True,
          toggleText = ''Use Joystick'',
          localStorage = emptyStorage\<lparr>items := [''controlMode'' \<mapsto> ''dpad'']\<rparr>\<rparr> \<and>
   toggleClick \<lparr>isJoystickMode = False, dpadHidden = False, joystickHidden = True,
          toggleText = ''Use Joystick'',
          localStorage = emptyStorage\<lparr>items := [''controlMode'' \<mapsto> ''dpad'']\<rparr>\<rparr> =
     Inr \<lparr>isJoystickMode = True, dpadHidden = True, joystickHidden = False,
          toggleText = ''Use D-Pad'',
          localStorage = emptyStorage\<lparr>items := [''controlMode'' \<mapsto> ''joystick'']\<rparr>\<rparr> \<and>
   dpadHidden staleJoystick = False \<and> joystickHidden staleJoystick = True"
  by (simp add: toggleClick_def setItem_def updateControlVisibility_def Let_def
      dpadShown_def readOnlyStorage_def emptyStorage_def staleJoystick_def)

section \<open>Layout engine\<close>

text \<open>
  C6, amended. For every viewport of positive width and height and every configuration
  with scale, padding percent and gap percent at least 0 that satisfies
  \<open>padding / 100 + 0.462 * scale + 2 * gap / 100 \<le> 1\<close> and
  \<open>padding / 100 + 0.63 * scale + gap / 100 \<le> 1\<close> (the source's \<open>CONFIG\<close> does), the
  layout pass on the built document gives every element of the overlay a bounding box that
  lies fully within the viewport.
\<close>

theorem controls_within_viewport:
  assumes pos: "0 < w" "0 < h"
    and cfg: "0 \<le> scale cfg" "0 \<le> paddingPercent cfg" "0 \<le> gapPercent cfg"
    and fit1: "paddingPercent cfg / 100 + 0.462 * scale cfg + 2 * gapPercent cfg / 100 \<le> 1"
    and fit2: "paddingPercent cfg / 100 + 0.63 * scale cfg + gapPercent cfg / 100 \<le> 1"
  shows "\<forall>i \<in> set controlIds.
           \<exists>b. boundingBox w h (calculateAndApplyLayout cfg w h initialDocument) i = Some b \<and>
               withinViewport w h b"
proof -
  note b = geometry_bounds [OF assms]
  note r = geometry_relations [of cfg w h]
  note facts = b r
  have top: "\<exists>b. boundingBox w h (calculateAndApplyLayout cfg w h initialDocument) i = Some b \<and>
               withinViewport w h b"
    if "i \<in> set [''action-cluster'', ''touch-esc'', ''dpad-container'', ''joystick-container'',
                   ''control-toggle-button'']" for i
    using that b by (auto simp: layout_boxes withinViewport_def r)
  have act: "\<exists>b. boundingBox w h (calculateAndApplyLayout cfg w h initialDocument) i = Some b \<and>
               withinViewport w h b"
    if "i \<in> set [''touch-q'', ''touch-z'', ''touch-x'', ''touch-m'', ''touch-c'', ''touch-v'']" for i
    using that b by (auto simp: action_button_boxes withinViewport_def r)
  have mov: "\<exists>b. boundingBox w h (calculateAndApplyLayout cfg w h initialDocument) i = Some b \<and>
               withinViewport w h b"
    if "i \<in> set [''touch-up'', ''touch-down'', ''touch-left'', ''touch-right'',
                   ''joystick-base'', ''joystick-thumb'']" for i
    using that b by (auto simp: movement_boxes withinViewport_def r)
  show ?thesis
    unfolding controlIds_eq using top act mov by simp
qed

theorem controls_within_viewport_witness:
  "(0::real) < 390 \<and> (0::real) < 844 \<and>
   0 \<le> scale CONFIG \<and> 0 \<le> paddingPercent CONFIG \<and> 0 \<le> gapPercent CONFIG \<and>
   paddingPercent CONFIG / 100 + 0.462 * scale CONFIG + 2 * gapPercent CONFIG / 100 \<le> 1 \<and>
   paddingPercent CONFIG / 100 + 0.63 * scale CONFIG + gapPercent CONFIG / 100 \<le> 1 \<and>
   (\<exists>b. boundingBox 390 844 (calculateAndApplyLayout CONFIG 390 844 initialDocument)
          ''control-toggle-button'' = Some b \<and> withinViewport 390 844 b) \<and>
   (\<exists>b. boundingBox 844 390 (calculateAndApplyLayout CONFIG 844 390 initialDocument)
          ''control-toggle-button'' = Some b \<and> withinViewport 844 390 b) \<and>
   (\<exists>b. boundingBox 844 390 (calculateAndApplyLayout CONFIG 844 390 initialDocument)
          ''touch-q'' = Some b \<and> withinViewport 844 390 b)"
proof -
  have v: "(0::real) < 390" "(0::real) < 844"
    by simp_all
  have c: "0 \<le> scale CONFIG" "0 \<le> paddingPercent CONFIG" "0 \<le> gapPercent CONFIG"
    "paddingPercent CONFIG / 100 + 0.462 * scale CONFIG + 2 * gapPercent CONFIG / 100 \<le> 1"
    "paddingPercent CONFIG / 100 + 0.63 * scale CONFIG + gapPercent CONFIG / 100 \<le> 1"
    by (simp_all add: CONFIG_def)
  have i: "''control-toggle-button'' \<in> set controlIds" "''touch-q'' \<in> set controlIds"
    by (simp_all add: controlIds_eq)
  show ?thesis
    using v c
      controls_within_viewport [OF v(1) v(2) c, THEN bspec, OF i(1)]
      controls_within_viewport [OF v(2) v(1) c, THEN bspec, OF i(1)]
      controls_within_viewport [OF v(2) v(1) c, THEN bspec, OF i(2)]
    by blast
qed

text \<open>
  The claim as first stated asks only for a padding percent and a scale of at least 0. With
  the scale 2 in a landscape viewport of 200 by 100 the movement cluster is 106.4 pixels
  high and its box starts above the top edge.
\<close>

theorem large_scale_counterexample:
  "(0::real) < 200 \<and> (0::real) < 100 \<and> 0 \<le> paddingPercent doubleScale \<and> 0 \<le> scale doubleScale \<and>
   boundingBox 200 100 (calculateAndApplyLayout doubleScale 200 100 initialDocument)
       ''dpad-container'' =
     Some \<lparr>boxX = 4, boxY = - 10.4, boxW = 106.4, boxH = 106.4\<rparr> \<and>
   \<not> withinViewport 200 100 \<lparr>boxX = 4, boxY = - 10.4, boxW = 106.4, boxH = 106.4\<rparr>"
  by (simp add: layout_boxes layoutGeometry_def doubleScale_def Let_def withinViewport_def)

text \<open>
  C7. What a layout pass writes depends on the viewport and the configuration only: a
  pass that follows any earlier pass leaves the document that the pass alone leaves, so
  nothing of the earlier geometry survives, and running the pass twice with the same
  viewport gives the same document as running it once.
\<close>

theorem layout_overwrites_previous:
  "calculateAndApplyLayout cfg w h (calculateAndApplyLayout cfg' w' h' doc) =
     calculateAndApplyLayout cfg w h doc \<and>
   calculateAndApplyLayout cfg w h (calculateAndApplyLayout cfg w h doc) =
     calculateAndApplyLayout cfg w h doc"
proof -
  have main: "calculateAndApplyLayout c1 w1 h1 (calculateAndApplyLayout c2 w2 h2 doc) =
     calculateAndApplyLayout c1 w1 h1 doc" for c1 w1 h1 c2 w2 h2
  proof
    fix j
    let ?A = "concat (map snd (filter (\<lambda>p. fst p = j) (layoutAssignments (layoutGeometry c1 w1 h1))))"
    let ?B = "concat (map snd (filter (\<lambda>p. fst p = j) (layoutAssignments (layoutGeometry c2 w2 h2))))"
    have "map fst ?B = map fst ?A"
      by (simp only: keys_of_shape layoutAssignments_shape [of "layoutGeometry c2 w2 h2" "layoutGeometry c1 w1 h1"])
    then have "set (map fst ?B) = set (map fst ?A)"
      by simp
    then have "fst ` set ?B \<subseteq> fst ` set ?A"
      by simp
    then have "assign (assign st ?B) ?A = assign st ?A" for st
      by (rule assign_absorb)
    then show "calculateAndApplyLayout c1 w1 h1 (calculateAndApplyLayout c2 w2 h2 doc) j =
        calculateAndApplyLayout c1 w1 h1 doc j"
      by (simp add: layout_pointwise split: option.splits)
  qed
  show ?thesis
    using main by simp
qed

text \<open>
  C8, amended. In the source's double arithmetic, for a fixed short side and the master
  scale 1.0 of the source's \<open>CONFIG\<close>: each size that the layout pass computes directly
  as a multiple of the effective scale (the action button, the movement cluster, the system
  button, the toggle's width and height) is in landscape exactly the double product of its
  portrait value and 1.4, and padding and gap are the same in both orientations.
\<close>

theorem landscape_is_portrait_times_1_4:
  assumes unit: "scale cfg = 1"
    and sides: "landW > landH" "portW \<le> portH" "portW = landH"
  shows "let l = layoutGeometryRounded fl64 cfg landW landH;
             p = layoutGeometryRounded fl64 cfg portW portH
         in actionButtonSize l = fl64 (actionButtonSize p * fl64 1.4) \<and>
            movementClusterSize l = fl64 (movementClusterSize p * fl64 1.4) \<and>
            escButtonSize l = fl64 (escButtonSize p * fl64 1.4) \<and>
            toggleButtonW l = fl64 (toggleButtonW p * fl64 1.4) \<and>
            toggleButtonH l = fl64 (toggleButtonH p * fl64 1.4) \<and>
            padding l = padding p \<and>
            gap l = gap p"
  using sides
  by (simp add: layoutGeometryRounded_def Let_def min_def unit fl64_one fl64_idem)

theorem landscape_is_portrait_times_1_4_witness:
  "scale CONFIG = 1 \<and> (844::real) > 390 \<and> (390::real) \<le> 844 \<and>
   actionButtonSize (layoutGeometryRounded fl64 CONFIG 390 844) = 6037638250443571 / 2 ^ 47 \<and>
   actionButtonSize (layoutGeometryRounded fl64 CONFIG 844 390) =
     fl64 (6037638250443571 / 2 ^ 47 * fl64 1.4) \<and>
   actionButtonSize (layoutGeometryRounded fl64 CONFIG 844 390) = 8452693550620999 / 2 ^ 47"
proof -
  have h: "scale CONFIG = 1" "(844::real) > 390" "(390::real) \<le> 844" "(390::real) = 390"
    by (simp_all add: CONFIG_def)
  have p: "actionButtonSize (layoutGeometryRounded fl64 CONFIG 390 844) = 6037638250443571 / 2 ^ 47"
    by (simp add: layoutGeometryRounded_def Let_def CONFIG_def fl64_one fl64_values)
  have l: "actionButtonSize (layoutGeometryRounded fl64 CONFIG 844 390) = 8452693550620999 / 2 ^ 47"
    by (simp add: layoutGeometryRounded_def Let_def CONFIG_def fl64_one fl64_values)
  have "actionButtonSize (layoutGeometryRounded fl64 CONFIG 844 390) =
      fl64 (actionButtonSize (layoutGeometryRounded fl64 CONFIG 390 844) * fl64 1.4)"
    using landscape_is_portrait_times_1_4 [OF h]
    by (simp only: Let_def)
  then show ?thesis
    using h p l by simp
qed

text \<open>
  The claim as first stated covers every dimension that depends on the scale. The width of
  the action cluster does, and it adds the gap, which is not scaled: for the source's
  \<open>CONFIG\<close> and a short side of 390 it is 152.1 in portrait and 203.58 in landscape, not
  212.94.
\<close>

theorem cluster_width_counterexample:
  "clusterWidth (layoutGeometry CONFIG 390 844) = 152.1 \<and>
   clusterWidth (layoutGeometry CONFIG 844 390) = 203.58 \<and>
   clusterWidth (layoutGeometry CONFIG 844 390) \<noteq>
     1.4 * clusterWidth (layoutGeometry CONFIG 390 844)"
  by (simp add: layoutGeometry_def CONFIG_def Let_def)

text \<open>
  The sizes that a further rounded operation derives from these are not covered. In doubles
  at a short side of 390 the directional button is 64.83749999999998 in landscape, and its
  portrait value 46.31249999999999 times 1.4 is 64.83749999999999.
\<close>

lemma derived_size_rounding:
  "dpadButtonSize (layoutGeometryRounded fl64 CONFIG 390 844) = 6517904929456127 / 2 ^ 47 \<and>
   dpadButtonSize (layoutGeometryRounded fl64 CONFIG 844 390) = 570316681327411 / 2 ^ 43 \<and>
   fl64 (dpadButtonSize (layoutGeometryRounded fl64 CONFIG 390 844) * fl64 1.4)
     = 4562533450619289 / 2 ^ 46 \<and>
   dpadButtonSize (layoutGeometryRounded fl64 CONFIG 844 390) \<noteq>
     fl64 (dpadButtonSize (layoutGeometryRounded fl64 CONFIG 390 844) * fl64 1.4)"
  by (simp add: layoutGeometryRounded_def Let_def CONFIG_def fl64_one fl64_values)

end
